theory Spec2Isabelle
  imports Complex_Main "HOL-Library.Sublist"
begin

section \<open>Numbers\<close>

text \<open>
  The program computes on IEEE doubles held in numpy arrays and pandas Series. A
  number is modelled as an exact real, extended by the not-a-number value and the two
  infinities, which numpy produces instead of raising (division by zero, logarithm of
  a negative number). Rounding, overflow and the sign of zero are not modelled: zero is
  the positive zero. The arithmetic of the program is written with the usual operators,
  which stand for the operations defined here.
\<close>

datatype fl = NaN | NInf | Fin real | PInf

text \<open>Comparisons with NaN are false, as in Python.\<close>

fun flt :: "fl \<Rightarrow> fl \<Rightarrow> bool" where
  "flt (Fin x) (Fin y) = (x < y)"
| "flt NInf (Fin y) = True"
| "flt NInf PInf = True"
| "flt (Fin x) PInf = True"
| "flt _ _ = False"

definition fgt :: "fl \<Rightarrow> fl \<Rightarrow> bool" where
  "fgt x y = flt y x"

fun fneg :: "fl \<Rightarrow> fl" where
  "fneg NaN = NaN"
| "fneg NInf = PInf"
| "fneg PInf = NInf"
| "fneg (Fin x) = Fin (- x)"

fun fadd :: "fl \<Rightarrow> fl \<Rightarrow> fl" where
  "fadd (Fin x) (Fin y) = Fin (x + y)"
| "fadd NaN _ = NaN"
| "fadd _ NaN = NaN"
| "fadd PInf NInf = NaN"
| "fadd NInf PInf = NaN"
| "fadd PInf _ = PInf"
| "fadd _ PInf = PInf"
| "fadd NInf _ = NInf"
| "fadd _ NInf = NInf"

definition fsub :: "fl \<Rightarrow> fl \<Rightarrow> fl" where
  "fsub x y = fadd x (fneg y)"

text \<open>The sign of an infinity times (or over) a finite number.\<close>

definition signed_inf :: "bool \<Rightarrow> fl" where
  "signed_inf pos = (if pos then PInf else NInf)"

fun fmul :: "fl \<Rightarrow> fl \<Rightarrow> fl" where
  "fmul (Fin x) (Fin y) = Fin (x * y)"
| "fmul NaN _ = NaN"
| "fmul _ NaN = NaN"
| "fmul PInf PInf = PInf"
| "fmul NInf NInf = PInf"
| "fmul PInf NInf = NInf"
| "fmul NInf PInf = NInf"
| "fmul PInf (Fin y) = (if y = 0 then NaN else signed_inf (0 < y))"
| "fmul NInf (Fin y) = (if y = 0 then NaN else signed_inf (y < 0))"
| "fmul (Fin x) PInf = (if x = 0 then NaN else signed_inf (0 < x))"
| "fmul (Fin x) NInf = (if x = 0 then NaN else signed_inf (x < 0))"

fun fdiv :: "fl \<Rightarrow> fl \<Rightarrow> fl" where
  "fdiv (Fin x) (Fin y) =
     (if y = 0 then (if x = 0 then NaN else signed_inf (0 < x)) else Fin (x / y))"
| "fdiv NaN _ = NaN"
| "fdiv _ NaN = NaN"
| "fdiv (Fin x) PInf = Fin 0"
| "fdiv (Fin x) NInf = Fin 0"
| "fdiv PInf (Fin y) = signed_inf (0 \<le> y)"
| "fdiv NInf (Fin y) = signed_inf (y < 0)"
| "fdiv _ _ = NaN"

fun fabs :: "fl \<Rightarrow> fl" where
  "fabs NaN = NaN"
| "fabs NInf = PInf"
| "fabs PInf = PInf"
| "fabs (Fin x) = Fin \<bar>x\<bar>"

fun fexp :: "fl \<Rightarrow> fl" where
  "fexp NaN = NaN"
| "fexp NInf = Fin 0"
| "fexp PInf = PInf"
| "fexp (Fin x) = Fin (exp x)"

fun flog :: "fl \<Rightarrow> fl" where
  "flog NaN = NaN"
| "flog NInf = NaN"
| "flog PInf = PInf"
| "flog (Fin x) = (if x < 0 then NaN else if x = 0 then NInf else Fin (ln x))"

text \<open>\<open>x ** p\<close> for a positive exponent that is not an integer.\<close>

fun fpow :: "fl \<Rightarrow> real \<Rightarrow> fl" where
  "fpow NaN p = NaN"
| "fpow NInf p = PInf"
| "fpow PInf p = PInf"
| "fpow (Fin x) p = (if x < 0 then NaN else Fin (x powr p))"

text \<open>
  The operators \<open>+\<close>, \<open>-\<close>, \<open>*\<close>, \<open>/\<close> and the literals of the program, on \<open>fl\<close>. A
  literal \<open>5.64\<close> is \<open>Fin 5.64\<close> (lemma \<open>fl_numeral\<close> below).
\<close>

instantiation fl :: "{zero, one, plus, minus, uminus, times, inverse}"
begin

definition zero_fl :: fl where "zero_fl = Fin 0"
definition one_fl :: fl where "one_fl = Fin 1"
definition plus_fl :: "fl \<Rightarrow> fl \<Rightarrow> fl" where "plus_fl x y = fadd x y"
definition minus_fl :: "fl \<Rightarrow> fl \<Rightarrow> fl" where "minus_fl x y = fsub x y"
definition uminus_fl :: "fl \<Rightarrow> fl" where "uminus_fl x = fneg x"
definition times_fl :: "fl \<Rightarrow> fl \<Rightarrow> fl" where "times_fl x y = fmul x y"
definition divide_fl :: "fl \<Rightarrow> fl \<Rightarrow> fl" where "divide_fl x y = fdiv x y"
definition inverse_fl :: "fl \<Rightarrow> fl" where "inverse_fl x = fdiv (Fin 1) x"

instance ..

end

instance fl :: power ..

instance fl :: numeral
proof
  fix a b c :: fl
  show "a + b + c = a + (b + c)"
    by (cases a; cases b; cases c) (simp_all add: plus_fl_def)
qed


section \<open>The calibration equations\<close>

text \<open>
  Each equation of the source, as a function of the values of one sample: numpy and pandas
  evaluate the same expression on whole columns, element by element. The first parameter
  is the dependent variable (\<open>T\<close> for a barometer, \<open>P\<close> for a thermometer). Where the
  source gives it the default \<open>None\<close> the body never reads it, and its type is left open.
\<close>

subsection \<open>Amphibole-only barometers\<close>

definition P_Kraw2012 :: "'t \<Rightarrow> fl \<Rightarrow> fl \<Rightarrow> fl" where
  "P_Kraw2012 T Mgno_Amp deltaNNO =
  0.01 * fpow (Mgno_Amp / 52.7 - 0.014 * deltaNNO) 15.12"

definition P_Ridolfi2012_1a :: "'t \<Rightarrow> fl \<Rightarrow> fl \<Rightarrow> fl
  \<Rightarrow> fl \<Rightarrow> fl \<Rightarrow> fl \<Rightarrow> fl \<Rightarrow> fl
  \<Rightarrow> fl" where
  "P_Ridolfi2012_1a T SiO2_Amp_13_cat TiO2_Amp_13_cat FeOt_Amp_13_cat MgO_Amp_13_cat
      CaO_Amp_13_cat K2O_Amp_13_cat Na2O_Amp_13_cat Al2O3_Amp_13_cat =
  0.01 * fexp (125.9332115 - 9.587571403 * SiO2_Amp_13_cat - 10.11615567 * TiO2_Amp_13_cat -
      8.173455128 * Al2O3_Amp_13_cat - 9.226076274 * FeOt_Amp_13_cat - 8.793390507 *
      MgO_Amp_13_cat - 1.6658613 * CaO_Amp_13_cat + 2.48347198 * Na2O_Amp_13_cat + 2.519184959
      * K2O_Amp_13_cat)"

definition P_Ridolfi2012_1b :: "'t \<Rightarrow> fl \<Rightarrow> fl \<Rightarrow> fl
  \<Rightarrow> fl \<Rightarrow> fl \<Rightarrow> fl \<Rightarrow> fl \<Rightarrow> fl
  \<Rightarrow> fl" where
  "P_Ridolfi2012_1b T SiO2_Amp_13_cat TiO2_Amp_13_cat FeOt_Amp_13_cat MgO_Amp_13_cat
      CaO_Amp_13_cat K2O_Amp_13_cat Na2O_Amp_13_cat Al2O3_Amp_13_cat =
  0.01 * fexp (38.722545085 - 2.695663047 * SiO2_Amp_13_cat - 2.35647038717941 * TiO2_Amp_13_cat
      - 1.30063975020919 * Al2O3_Amp_13_cat - 2.7779767369382 * FeOt_Amp_13_cat -
      2.48384821395444 * MgO_Amp_13_cat - 0.661386638563983 * CaO_Amp_13_cat -
      0.270530207793162 * Na2O_Amp_13_cat + 0.111696322092308 * K2O_Amp_13_cat)"

definition P_Ridolfi2012_1c :: "'t \<Rightarrow> fl \<Rightarrow> fl \<Rightarrow> fl
  \<Rightarrow> fl \<Rightarrow> fl \<Rightarrow> fl \<Rightarrow> fl \<Rightarrow> fl
  \<Rightarrow> fl" where
  "P_Ridolfi2012_1c T SiO2_Amp_13_cat TiO2_Amp_13_cat FeOt_Amp_13_cat MgO_Amp_13_cat
      CaO_Amp_13_cat K2O_Amp_13_cat Na2O_Amp_13_cat Al2O3_Amp_13_cat =
  0.01 * (24023.367332 - 1925.29825 * SiO2_Amp_13_cat - 1720.63250944418 * TiO2_Amp_13_cat -
      1478.53847391822 * Al2O3_Amp_13_cat - 1843.19249824537 * FeOt_Amp_13_cat -
      1746.94437497404 * MgO_Amp_13_cat - 158.279055907371 * CaO_Amp_13_cat - 40.4443246813322
      * Na2O_Amp_13_cat + 253.51576430265 * K2O_Amp_13_cat)"

definition P_Ridolfi2012_1d :: "'t \<Rightarrow> fl \<Rightarrow> fl \<Rightarrow> fl
  \<Rightarrow> fl \<Rightarrow> fl \<Rightarrow> fl \<Rightarrow> fl \<Rightarrow> fl
  \<Rightarrow> fl" where
  "P_Ridolfi2012_1d T SiO2_Amp_13_cat TiO2_Amp_13_cat FeOt_Amp_13_cat MgO_Amp_13_cat
      CaO_Amp_13_cat K2O_Amp_13_cat Na2O_Amp_13_cat Al2O3_Amp_13_cat =
  0.01 * (26105.7092067 - 1991.93398583468 * SiO2_Amp_13_cat - 3034.9724955129 * TiO2_Amp_13_cat
      - 1472.2242262718 * Al2O3_Amp_13_cat - 2454.76485311127 * FeOt_Amp_13_cat -
      2125.79095875747 * MgO_Amp_13_cat - 830.644984403603 * CaO_Amp_13_cat + 2708.82902160291
      * Na2O_Amp_13_cat + 2204.10480275638 * K2O_Amp_13_cat)"

definition P_Ridolfi2012_1e :: "'t \<Rightarrow> fl \<Rightarrow> fl \<Rightarrow> fl
  \<Rightarrow> fl \<Rightarrow> fl \<Rightarrow> fl \<Rightarrow> fl \<Rightarrow> fl
  \<Rightarrow> fl" where
  "P_Ridolfi2012_1e T SiO2_Amp_13_cat TiO2_Amp_13_cat FeOt_Amp_13_cat MgO_Amp_13_cat
      CaO_Amp_13_cat K2O_Amp_13_cat Na2O_Amp_13_cat Al2O3_Amp_13_cat =
  0.01 * fexp (26.5426319326957 - 1.20851740386237 * SiO2_Amp_13_cat - 3.85930939071001 *
      TiO2_Amp_13_cat - 1.10536070667051 * Al2O3_Amp_13_cat - 2.90677947035468 *
      FeOt_Amp_13_cat - 2.64825741548332 * MgO_Amp_13_cat + 0.513357584438019 * CaO_Amp_13_cat
      + 2.9751971464851 * Na2O_Amp_13_cat + 1.81467032749331 * K2O_Amp_13_cat)"

definition P_Ridolfi2010 :: "'t \<Rightarrow> fl \<Rightarrow> fl \<Rightarrow> fl" where
  "P_Ridolfi2010 T Al2O3_Amp_cat_23ox cation_sum_Si_Ca =
  10 * (19.209 * fexp (1.438 * Al2O3_Amp_cat_23ox * 13 / cation_sum_Si_Ca)) / 1000"

definition P_Hammerstrom1986_eq1 :: "'t \<Rightarrow> fl \<Rightarrow> fl" where
  "P_Hammerstrom1986_eq1 T Al2O3_Amp_cat_23ox =
  - 3.92 + 5.03 * Al2O3_Amp_cat_23ox"

definition P_Hammerstrom1986_eq2 :: "'t \<Rightarrow> fl \<Rightarrow> fl" where
  "P_Hammerstrom1986_eq2 T Al2O3_Amp_cat_23ox =
  1.27 * fpow Al2O3_Amp_cat_23ox 2.01"

definition P_Hammerstrom1986_eq3 :: "'t \<Rightarrow> fl \<Rightarrow> fl" where
  "P_Hammerstrom1986_eq3 T Al2O3_Amp_cat_23ox =
  0.26 * fexp (1.48 * Al2O3_Amp_cat_23ox)"

definition P_Hollister1987 :: "'t \<Rightarrow> fl \<Rightarrow> fl" where
  "P_Hollister1987 T Al2O3_Amp_cat_23ox =
  - 4.76 + 5.64 * Al2O3_Amp_cat_23ox"

definition P_Johnson1989 :: "'t \<Rightarrow> fl \<Rightarrow> fl" where
  "P_Johnson1989 T Al2O3_Amp_cat_23ox =
  - 3.46 + 4.23 * Al2O3_Amp_cat_23ox"

definition P_Anderson1995 :: "fl \<Rightarrow> fl \<Rightarrow> fl" where
  "P_Anderson1995 T Al2O3_Amp_cat_23ox =
  4.76 * Al2O3_Amp_cat_23ox - 3.01 - (T - 273.15 - 675) / 85 * (0.53 * Al2O3_Amp_cat_23ox +
      0.005294 * (T - 273.15 - 675))"

definition P_Blundy1990 :: "'t \<Rightarrow> fl \<Rightarrow> fl" where
  "P_Blundy1990 T Al2O3_Amp_cat_23ox =
  5.03 * Al2O3_Amp_cat_23ox - 3.53"

definition P_Schmidt1992 :: "'t \<Rightarrow> fl \<Rightarrow> fl" where
  "P_Schmidt1992 T Al2O3_Amp_cat_23ox =
  - 3.01 + 4.76 * Al2O3_Amp_cat_23ox"


subsection \<open>Amphibole-only thermometers\<close>

definition T_Put2016_eq5 :: "'t \<Rightarrow> fl \<Rightarrow> fl \<Rightarrow> fl
  \<Rightarrow> fl \<Rightarrow> fl" where
  "T_Put2016_eq5 P SiO2_Amp_cat_23ox TiO2_Amp_cat_23ox FeOt_Amp_cat_23ox Na2O_Amp_cat_23ox =
  273.15 + 1781 - 132.74 * SiO2_Amp_cat_23ox + 116.6 * TiO2_Amp_cat_23ox - 69.41 *
      FeOt_Amp_cat_23ox + 101.62 * Na2O_Amp_cat_23ox"

definition T_Put2016_eq6 :: "fl \<Rightarrow> fl \<Rightarrow> fl \<Rightarrow> fl
  \<Rightarrow> fl \<Rightarrow> fl" where
  "T_Put2016_eq6 P SiO2_Amp_cat_23ox TiO2_Amp_cat_23ox FeOt_Amp_cat_23ox Na2O_Amp_cat_23ox =
  273.15 + 1687 - 118.7 * SiO2_Amp_cat_23ox + 131.56 * TiO2_Amp_cat_23ox - 71.41 *
      FeOt_Amp_cat_23ox + 86.13 * Na2O_Amp_cat_23ox + 22.44 * P / 10"

definition T_Put2016_SiHbl :: "'t \<Rightarrow> fl \<Rightarrow> fl" where
  "T_Put2016_SiHbl P SiO2_Amp_cat_23ox =
  273.15 + 2061 - 178.4 * SiO2_Amp_cat_23ox"

definition T_Ridolfi2012 :: "fl \<Rightarrow> fl \<Rightarrow> fl \<Rightarrow> fl
  \<Rightarrow> fl \<Rightarrow> fl \<Rightarrow> fl \<Rightarrow> fl \<Rightarrow> fl
  \<Rightarrow> fl" where
  "T_Ridolfi2012 P SiO2_Amp_13_cat TiO2_Amp_13_cat FeOt_Amp_13_cat MgO_Amp_13_cat CaO_Amp_13_cat
      K2O_Amp_13_cat Na2O_Amp_13_cat Al2O3_Amp_13_cat =
  273.15 + 8899.682 - 691.423 * SiO2_Amp_13_cat - 391.548 * TiO2_Amp_13_cat - 666.149 *
      Al2O3_Amp_13_cat - 636.484 * FeOt_Amp_13_cat - 584.021 * MgO_Amp_13_cat - 23.215 *
      CaO_Amp_13_cat + 79.971 * Na2O_Amp_13_cat - 104.134 * K2O_Amp_13_cat + 78.993 * flog (P
      * 100)"

definition T_Put2016_eq8 :: "fl \<Rightarrow> fl \<Rightarrow> fl \<Rightarrow> fl
  \<Rightarrow> fl \<Rightarrow> fl" where
  "T_Put2016_eq8 P SiO2_Amp_cat_23ox TiO2_Amp_cat_23ox MgO_Amp_cat_23ox Na2O_Amp_cat_23ox =
  273.15 + 1201.4 - 97.93 * SiO2_Amp_cat_23ox + 201.82 * TiO2_Amp_cat_23ox + 72.85 *
      MgO_Amp_cat_23ox + 88.9 * Na2O_Amp_cat_23ox + 40.65 * P / 10"

definition T_Put2016_eq4a_amp_sat :: "'t \<Rightarrow> fl \<Rightarrow> fl \<Rightarrow> fl
  \<Rightarrow> fl \<Rightarrow> fl \<Rightarrow> fl \<Rightarrow> fl \<Rightarrow> fl" where
  "T_Put2016_eq4a_amp_sat P FeOt_Liq_mol_frac_hyd TiO2_Liq_mol_frac_hyd Al2O3_Liq_mol_frac_hyd
      MnO_Liq_mol_frac_hyd MgO_Liq_mol_frac_hyd Na2O_Amp_cat_23ox Na2O_Liq_mol_frac_hyd =
  273.15 + 6383.4 / (- 12.07 + 45.4 * Al2O3_Liq_mol_frac_hyd + 12.21 * FeOt_Liq_mol_frac_hyd -
      0.415 * flog TiO2_Liq_mol_frac_hyd - 3.555 * flog Al2O3_Liq_mol_frac_hyd - 0.832 * flog
      Na2O_Liq_mol_frac_hyd - 0.481 * flog ((FeOt_Liq_mol_frac_hyd + MgO_Liq_mol_frac_hyd +
      MnO_Liq_mol_frac_hyd) * Al2O3_Liq_mol_frac_hyd) - 0.679 * flog (Na2O_Amp_cat_23ox /
      Na2O_Liq_mol_frac_hyd))"


section \<open>Tables and Python values\<close>

text \<open>
  A pandas DataFrame is its list of column names and its rows; a row gives the value
  of every column of the table (what it gives at other names is never read: every read
  of a column first checks that the table has it). All columns of a table have one length
  by construction, and rows are identified by their position: the tables carry the
  default index \<open>0 .. n-1\<close>.
\<close>

type_synonym sample = "string \<Rightarrow> fl"

record frame =
  columns :: "string list"
  rows :: "sample list"

text \<open>
  The argument passed as \<open>T\<close>, \<open>P\<close> or \<open>deltaNNO\<close>: \<open>None\<close>, a string, a number or a
  pandas Series.
\<close>

datatype pyarg = PyNone | PyStr string | PyNum fl | PySeries "fl list"

text \<open>
  The exceptions of the program. The three \<open>ValueError\<close>s of the dispatch are told apart
  by their message: \<open>UnknownEquation\<close> is "... is not a valid equation",
  \<open>MissingDependentVariable\<close> is "... requires you to enter T, or specify T="Solve""
  (and the same for \<open>P\<close>), \<open>LengthMismatch\<close> is "The panda series entered for
  Temperature isnt the same length as the dataframe of amphibole compositions" (and the
  same for Pressure), \<open>MissingDeltaNNO\<close> is "P_Kraw2012 requires you to enter a deltaNNO
  value" and \<open>AlreadyExists\<close> is the one of \<open>DataFrame.insert\<close>. \<open>PDependentNoP\<close> is the
  \<open>Exception\<close> "You have selected a P-dependent thermometer, please enter an option for
  P". \<open>UnboundLocalError\<close> names the local variable that is read before any assignment.
  \<open>ExternalError\<close> stands for whatever a function of \<open>Thermobar.core\<close> raises.
\<close>

datatype error =
    UnknownEquation string
  | MissingDependentVariable string
  | LengthMismatch
  | MissingDeltaNNO
  | PDependentNoP
  | KeyError string
  | TypeError
  | UnboundLocalError string
  | AttributeError string
  | AlreadyExists string
  | ExternalError string

text \<open>Statements in sequence: an exception ends the function.\<close>

definition and_then :: "error + 'a \<Rightarrow> ('a \<Rightarrow> error + 'b) \<Rightarrow> error + 'b" where
  "and_then r f = (case r of Inl e \<Rightarrow> Inl e | Inr x \<Rightarrow> f x)"

text \<open>What the program prints or warns, in order.\<close>

datatype diagnostic = Printed string | Warned string



section \<open>The Ridolfi (2021) pressure selection\<close>

text \<open>
  The loop of \<open>calculate_amp_only_press\<close> for \<open>equationP = "P_Ridolfi2021"\<close> reads, for
  the sample \<open>i\<close>, the five pressures \<open>P_MPa_1a[i]\<close> .. \<open>P_MPa_1e[i]\<close> and the two
  quantities computed from them before the loop.
\<close>

definition XPae :: "fl \<Rightarrow> fl \<Rightarrow> fl" where
  "XPae P_MPa_1a P_MPa_1e = (P_MPa_1a - P_MPa_1e) / P_MPa_1a"

definition deltaPdb :: "fl \<Rightarrow> fl \<Rightarrow> fl" where
  "deltaPdb P_MPa_1d P_MPa_1b = P_MPa_1d - P_MPa_1b"

text \<open>
  The \<open>if\<close>/\<open>elif\<close> chain of the loop body: the value stored in \<open>P_MPa[i]\<close> and the
  string stored in \<open>name[i]\<close>.
\<close>

definition Ridolfi2021_select :: "fl \<Rightarrow> fl \<Rightarrow> fl \<Rightarrow> fl \<Rightarrow> fl \<Rightarrow> fl \<times> string" where
  "Ridolfi2021_select P_MPa_1a P_MPa_1b P_MPa_1c P_MPa_1d P_MPa_1e =
    (if flt P_MPa_1b 335 then (P_MPa_1b, ''1b'')
     else if flt P_MPa_1b 399 then ((P_MPa_1b + P_MPa_1c) / 2, ''(1b+1c)/2'')
     else if flt P_MPa_1c 415 then (P_MPa_1c, ''1c'')
     else if flt P_MPa_1d 470 then (P_MPa_1c, ''1c'')
     else if fgt (XPae P_MPa_1a P_MPa_1e) 0.22 then ((P_MPa_1c + P_MPa_1d) / 2, ''1c+1d'')
     else if fgt (deltaPdb P_MPa_1d P_MPa_1b) 350 then (P_MPa_1e, ''1e'')
     else if fgt (deltaPdb P_MPa_1d P_MPa_1b) 210 then (P_MPa_1d, ''1d'')
     else if flt (deltaPdb P_MPa_1d P_MPa_1b) 75 then (P_MPa_1c, ''1c'')
     else if flt (XPae P_MPa_1a P_MPa_1e) (- 0.2) then ((P_MPa_1b + P_MPa_1c) / 2, ''(1b+1c)/2'')
     else if fgt (XPae P_MPa_1a P_MPa_1e) 0.05 then ((P_MPa_1c + P_MPa_1d) / 2, ''(1c+1d)/2'')
     else (P_MPa_1a, ''1a''))"

text \<open>
  The whole loop body: the chain, then \<open>if Sum_input[i] < 90: P_MPa[i] = np.nan\<close>.
\<close>

definition Ridolfi2021_sample ::
  "fl \<Rightarrow> fl \<Rightarrow> fl \<Rightarrow> fl \<Rightarrow> fl \<Rightarrow> fl \<Rightarrow> fl \<times> string" where
  "Ridolfi2021_sample P_MPa_1a P_MPa_1b P_MPa_1c P_MPa_1d P_MPa_1e Sum_input =
    (let (P_MPa, name) = Ridolfi2021_select P_MPa_1a P_MPa_1b P_MPa_1c P_MPa_1d P_MPa_1e
     in (if flt Sum_input 90 then NaN else P_MPa, name))"


section \<open>The input checks of the Ridolfi (2021) path\<close>

text \<open>
  A check is a pair of statements \<open>Calcs_R.loc[mask, 'Input_Check'] = False\<close> and
  \<open>Calcs_R.loc[mask, 'Fail Msg'] = msg\<close>: on a sample where the mask holds both columns
  are overwritten, elsewhere they are kept.
\<close>

definition fail_if :: "bool \<Rightarrow> string \<Rightarrow> bool \<times> string \<Rightarrow> bool \<times> string" where
  "fail_if failing msg st = (if failing then (False, msg) else st)"

text \<open>
  The masks of the checks and their messages, in the order of the statements of the
  source, from the quantities they read.
\<close>

definition input_checks ::
  "fl \<Rightarrow> fl \<Rightarrow> fl \<Rightarrow> fl \<Rightarrow> fl \<Rightarrow> fl \<Rightarrow> fl \<Rightarrow> (bool \<times> string) list" where
  "input_checks Sum_input Total_recalc Charge Fe2_calc Mgno_Fe2 CaO_Amp_13_cat B_Sum =
    [(flt Sum_input 90, ''Cation oxide Total<90''),
     (flt Total_recalc 98.5, ''Recalc Total<98.5''),
     (fgt Total_recalc 102, ''Recalc Total>102''),
     (fgt Charge 46.5, ''unbalanced charge (>46.5)''),
     (flt Fe2_calc 0, ''unbalanced charge (Fe2<0)''),
     (flt (100 * Mgno_Fe2) 54, ''Low Mg# (<54)''),
     (flt CaO_Amp_13_cat 1.5, ''Low Ca (<1.5)''),
     (fgt CaO_Amp_13_cat 2.05, ''High Ca (>2.05)''),
     (flt B_Sum 1.99, ''Low B Cations'')]"

text \<open>
  The checks run one after the other on the columns \<open>Input_Check\<close> and \<open>Fail Msg\<close>. The
  two columns are first set to \<open>True\<close> and \<open>""\<close> on every row, which discards what the
  earlier statements for \<open>APE > 60\<close> stored there (\<open>before\<close>).
\<close>

definition run_checks :: "(bool \<times> string) option \<Rightarrow> (bool \<times> string) list \<Rightarrow> bool \<times> string" where
  "run_checks before checks = foldl (\<lambda>st (failing, msg). fail_if failing msg st) (True, '''') checks"

text \<open>One row of the table \<open>Calcs_R\<close> that the path returns.\<close>

record Calcs_R_row =
  cat13_columns :: sample
  P_kbar_calc :: fl
  Input_Check :: bool
  Fail_Msg :: string
  equation :: string
  H2O_calc :: fl
  Fe2O3_calc :: fl
  FeO_calc :: fl
  Total_recalc :: fl
  Sum_input :: fl
  Charge :: fl
  APE :: fl
  Fe3_calc :: fl
  Fe2_calc :: fl
  O_F_Cl :: fl
  Total :: fl
  Mgno_Fe2 :: fl
  Na_calc :: fl
  B_Sum :: fl

text \<open>
  The statements of the path from the five pressures to \<open>return Calcs_R\<close>, for one sample:
  \<open>cat13\<close> is its row of the 13-cation table, \<open>amp\<close> its row of \<open>amp_comps\<close>, \<open>Sum_in\<close>
  its entry of \<open>Sum_input\<close>. A name bound twice is a column assigned and then overwritten
  under a mask.
\<close>

definition Ridolfi2021_row :: "sample \<Rightarrow> sample \<Rightarrow> fl \<Rightarrow> Calcs_R_row" where
  "Ridolfi2021_row cat13 amp Sum_in =
    (let
      Si = cat13 ''SiO2_Amp_13_cat''; Ti = cat13 ''TiO2_Amp_13_cat'';
      Fe = cat13 ''FeOt_Amp_13_cat''; Mg = cat13 ''MgO_Amp_13_cat'';
      Ca = cat13 ''CaO_Amp_13_cat''; K = cat13 ''K2O_Amp_13_cat'';
      Na = cat13 ''Na2O_Amp_13_cat''; Al = cat13 ''Al2O3_Amp_13_cat'';
      P_MPa_1a = 100 * P_Ridolfi2012_1a (PyNum 0) Si Ti Fe Mg Ca K Na Al;
      P_MPa_1b = 100 * P_Ridolfi2012_1b (PyNum 0) Si Ti Fe Mg Ca K Na Al;
      P_MPa_1c = 100 * P_Ridolfi2012_1c (PyNum 0) Si Ti Fe Mg Ca K Na Al;
      P_MPa_1d = 100 * P_Ridolfi2012_1d (PyNum 0) Si Ti Fe Mg Ca K Na Al;
      P_MPa_1e = 100 * P_Ridolfi2012_1e (PyNum 0) Si Ti Fe Mg Ca K Na Al;
      (P_MPa, name) = Ridolfi2021_sample P_MPa_1a P_MPa_1b P_MPa_1c P_MPa_1d P_MPa_1e Sum_in;
      P_kbar = P_MPa / 100;
      Low_sum = flt Sum_in 90;
      H2O = (2 - cat13 ''F_Amp_13_cat'' - cat13 ''Cl_Amp_13_cat'')
              * cat13 ''cation_sum_Si_Mg'' * 17 / 13 / 2;
      H2O = (if Low_sum then NaN else H2O);
      Chg = Si * 4 + Ti * 4 + Al * 3 + cat13 ''Cr2O3_Amp_13_cat'' * 3 + Fe * 2
              + cat13 ''MnO_Amp_13_cat'' * 2 + Mg * 2 + Ca * 2 + Na + K;
      APE_val = fabs (P_MPa_1a - P_MPa) / (P_MPa_1a + P_MPa) * 200;
      before = (if fgt APE_val 60 then Some (False, ''APE >60'') else None);
      Fe3 = 46 - Chg;
      Fe3 = (if fgt Chg 46 then 0 else Fe3);
      Fe2 = Fe - Fe3;
      Fe2O3 = Fe3 * cat13 ''cation_sum_Si_Mg'' * 159.691 / 13 / 2;
      Fe2O3 = (if Low_sum then NaN else Fe2O3);
      FeO = Fe2 * cat13 ''cation_sum_Si_Mg'' * 71.846 / 13;
      Fe2O3 = (if Low_sum then NaN else Fe2O3);
      OFCl = - (amp ''F_Amp'' * 0.421070639014633 + amp ''Cl_Amp'' * 0.225636758525372);
      OFCl = (if Low_sum then NaN else OFCl);
      Total_re = Sum_in - amp ''FeOt_Amp'' + H2O + Fe2O3 + FeO + OFCl;
      Mgno = Mg / (Mg + Fe2);
      Na_c = 2 - Ca;
      Na_c = (if flt Na (2 - Ca) then Na else Na_c);
      B = Na_c + Ca;
      (Check, Msg) = run_checks before (input_checks Sum_in Total_re Chg Fe2 Mgno Ca B);
      P_kbar = (if Check = False then NaN else P_kbar)
    in \<lparr>cat13_columns = cat13, P_kbar_calc = P_kbar, Input_Check = Check, Fail_Msg = Msg,
        equation = name, H2O_calc = H2O, Fe2O3_calc = Fe2O3, FeO_calc = FeO,
        Total_recalc = Total_re, Sum_input = Sum_in, Charge = Chg, APE = APE_val,
        Fe3_calc = Fe3, Fe2_calc = Fe2, O_F_Cl = OFCl, Total = NaN, Mgno_Fe2 = Mgno,
        Na_calc = Na_c, B_Sum = B\<rparr>)"


section \<open>The registries of equations\<close>

text \<open>
  What \<open>inspect.signature\<close> tells the dispatch about a registered function: the names of
  its keyword-only parameters, and whether the dependent variable has the default \<open>None\<close>
  (\<open>Optional_dep\<close>) or no default (\<open>Required_dep\<close>), together with the function itself. A
  function with the default receives the Python value passed for the dependent variable
  as it is and does not read it; a function without default computes with it.
\<close>

datatype func =
    Optional_dep "string list" "pyarg \<Rightarrow> sample \<Rightarrow> fl"
  | Required_dep "string list" "fl \<Rightarrow> sample \<Rightarrow> fl"

fun kwonly :: "func \<Rightarrow> string list" where
  "kwonly (Optional_dep names f) = names"
| "kwonly (Required_dep names f) = names"

text \<open>\<open>sig.parameters['T'].default is not None\<close>\<close>

fun default_is_not_None :: "func \<Rightarrow> bool" where
  "default_is_not_None (Optional_dep names f) = False"
| "default_is_not_None (Required_dep names f) = True"

definition Amp_only_P_funcs_by_name :: "string \<Rightarrow> func option" where
  "Amp_only_P_funcs_by_name = map_of
    [
(''P_Ridolfi2012_1a'', Optional_dep [''SiO2_Amp_13_cat'', ''TiO2_Amp_13_cat'',
         ''FeOt_Amp_13_cat'', ''MgO_Amp_13_cat'', ''CaO_Amp_13_cat'', ''K2O_Amp_13_cat'',
         ''Na2O_Amp_13_cat'', ''Al2O3_Amp_13_cat''] (\<lambda>T kw. P_Ridolfi2012_1a T (kw
         ''SiO2_Amp_13_cat'') (kw ''TiO2_Amp_13_cat'') (kw ''FeOt_Amp_13_cat'') (kw
         ''MgO_Amp_13_cat'') (kw ''CaO_Amp_13_cat'') (kw ''K2O_Amp_13_cat'') (kw
         ''Na2O_Amp_13_cat'') (kw ''Al2O3_Amp_13_cat''))),
(''P_Ridolfi2012_1b'', Optional_dep [''SiO2_Amp_13_cat'', ''TiO2_Amp_13_cat'',
         ''FeOt_Amp_13_cat'', ''MgO_Amp_13_cat'', ''CaO_Amp_13_cat'', ''K2O_Amp_13_cat'',
         ''Na2O_Amp_13_cat'', ''Al2O3_Amp_13_cat''] (\<lambda>T kw. P_Ridolfi2012_1b T (kw
         ''SiO2_Amp_13_cat'') (kw ''TiO2_Amp_13_cat'') (kw ''FeOt_Amp_13_cat'') (kw
         ''MgO_Amp_13_cat'') (kw ''CaO_Amp_13_cat'') (kw ''K2O_Amp_13_cat'') (kw
         ''Na2O_Amp_13_cat'') (kw ''Al2O3_Amp_13_cat''))),
(''P_Ridolfi2012_1c'', Optional_dep [''SiO2_Amp_13_cat'', ''TiO2_Amp_13_cat'',
         ''FeOt_Amp_13_cat'', ''MgO_Amp_13_cat'', ''CaO_Amp_13_cat'', ''K2O_Amp_13_cat'',
         ''Na2O_Amp_13_cat'', ''Al2O3_Amp_13_cat''] (\<lambda>T kw. P_Ridolfi2012_1c T (kw
         ''SiO2_Amp_13_cat'') (kw ''TiO2_Amp_13_cat'') (kw ''FeOt_Amp_13_cat'') (kw
         ''MgO_Amp_13_cat'') (kw ''CaO_Amp_13_cat'') (kw ''K2O_Amp_13_cat'') (kw
         ''Na2O_Amp_13_cat'') (kw ''Al2O3_Amp_13_cat''))),
(''P_Ridolfi2012_1d'', Optional_dep [''SiO2_Amp_13_cat'', ''TiO2_Amp_13_cat'',
         ''FeOt_Amp_13_cat'', ''MgO_Amp_13_cat'', ''CaO_Amp_13_cat'', ''K2O_Amp_13_cat'',
         ''Na2O_Amp_13_cat'', ''Al2O3_Amp_13_cat''] (\<lambda>T kw. P_Ridolfi2012_1d T (kw
         ''SiO2_Amp_13_cat'') (kw ''TiO2_Amp_13_cat'') (kw ''FeOt_Amp_13_cat'') (kw
         ''MgO_Amp_13_cat'') (kw ''CaO_Amp_13_cat'') (kw ''K2O_Amp_13_cat'') (kw
         ''Na2O_Amp_13_cat'') (kw ''Al2O3_Amp_13_cat''))),
(''P_Ridolfi2012_1e'', Optional_dep [''SiO2_Amp_13_cat'', ''TiO2_Amp_13_cat'',
         ''FeOt_Amp_13_cat'', ''MgO_Amp_13_cat'', ''CaO_Amp_13_cat'', ''K2O_Amp_13_cat'',
         ''Na2O_Amp_13_cat'', ''Al2O3_Amp_13_cat''] (\<lambda>T kw. P_Ridolfi2012_1e T (kw
         ''SiO2_Amp_13_cat'') (kw ''TiO2_Amp_13_cat'') (kw ''FeOt_Amp_13_cat'') (kw
         ''MgO_Amp_13_cat'') (kw ''CaO_Amp_13_cat'') (kw ''K2O_Amp_13_cat'') (kw
         ''Na2O_Amp_13_cat'') (kw ''Al2O3_Amp_13_cat''))),
(''P_Ridolfi2010'', Optional_dep [''Al2O3_Amp_cat_23ox'', ''cation_sum_Si_Ca''] (\<lambda>T
         kw. P_Ridolfi2010 T (kw ''Al2O3_Amp_cat_23ox'') (kw ''cation_sum_Si_Ca''))),
(''P_Hammerstrom1986_eq1'', Optional_dep [''Al2O3_Amp_cat_23ox''] (\<lambda>T kw.
         P_Hammerstrom1986_eq1 T (kw ''Al2O3_Amp_cat_23ox''))),
(''P_Hammerstrom1986_eq2'', Optional_dep [''Al2O3_Amp_cat_23ox''] (\<lambda>T kw.
         P_Hammerstrom1986_eq2 T (kw ''Al2O3_Amp_cat_23ox''))),
(''P_Hammerstrom1986_eq3'', Optional_dep [''Al2O3_Amp_cat_23ox''] (\<lambda>T kw.
         P_Hammerstrom1986_eq3 T (kw ''Al2O3_Amp_cat_23ox''))),
(''P_Hollister1987'', Optional_dep [''Al2O3_Amp_cat_23ox''] (\<lambda>T kw. P_Hollister1987 T
         (kw ''Al2O3_Amp_cat_23ox''))),
(''P_Johnson1989'', Optional_dep [''Al2O3_Amp_cat_23ox''] (\<lambda>T kw. P_Johnson1989 T (kw
         ''Al2O3_Amp_cat_23ox''))),
(''P_Blundy1990'', Optional_dep [''Al2O3_Amp_cat_23ox''] (\<lambda>T kw. P_Blundy1990 T (kw
         ''Al2O3_Amp_cat_23ox''))),
(''P_Schmidt1992'', Optional_dep [''Al2O3_Amp_cat_23ox''] (\<lambda>T kw. P_Schmidt1992 T (kw
         ''Al2O3_Amp_cat_23ox''))),
(''P_Anderson1995'', Required_dep [''Al2O3_Amp_cat_23ox''] (\<lambda>T kw. P_Anderson1995 T
         (kw ''Al2O3_Amp_cat_23ox''))),
(''P_Kraw2012'', Optional_dep [''Mgno_Amp'', ''deltaNNO''] (\<lambda>T kw. P_Kraw2012 T (kw
         ''Mgno_Amp'') (kw ''deltaNNO'')))
    ]"

definition Amp_only_T_funcs_by_name :: "string \<Rightarrow> func option" where
  "Amp_only_T_funcs_by_name = map_of
    [
(''T_Put2016_eq5'', Optional_dep [''SiO2_Amp_cat_23ox'', ''TiO2_Amp_cat_23ox'',
         ''FeOt_Amp_cat_23ox'', ''Na2O_Amp_cat_23ox''] (\<lambda>P kw. T_Put2016_eq5 P (kw
         ''SiO2_Amp_cat_23ox'') (kw ''TiO2_Amp_cat_23ox'') (kw ''FeOt_Amp_cat_23ox'') (kw
         ''Na2O_Amp_cat_23ox''))),
(''T_Put2016_eq6'', Required_dep [''SiO2_Amp_cat_23ox'', ''TiO2_Amp_cat_23ox'',
         ''FeOt_Amp_cat_23ox'', ''Na2O_Amp_cat_23ox''] (\<lambda>P kw. T_Put2016_eq6 P (kw
         ''SiO2_Amp_cat_23ox'') (kw ''TiO2_Amp_cat_23ox'') (kw ''FeOt_Amp_cat_23ox'') (kw
         ''Na2O_Amp_cat_23ox''))),
(''T_Put2016_SiHbl'', Optional_dep [''SiO2_Amp_cat_23ox''] (\<lambda>P kw. T_Put2016_SiHbl P
         (kw ''SiO2_Amp_cat_23ox''))),
(''T_Put2016_eq8'', Required_dep [''SiO2_Amp_cat_23ox'', ''TiO2_Amp_cat_23ox'',
         ''MgO_Amp_cat_23ox'', ''Na2O_Amp_cat_23ox''] (\<lambda>P kw. T_Put2016_eq8 P (kw
         ''SiO2_Amp_cat_23ox'') (kw ''TiO2_Amp_cat_23ox'') (kw ''MgO_Amp_cat_23ox'') (kw
         ''Na2O_Amp_cat_23ox''))),
(''T_Ridolfi2012'', Required_dep [''SiO2_Amp_13_cat'', ''TiO2_Amp_13_cat'',
         ''FeOt_Amp_13_cat'', ''MgO_Amp_13_cat'', ''CaO_Amp_13_cat'', ''K2O_Amp_13_cat'',
         ''Na2O_Amp_13_cat'', ''Al2O3_Amp_13_cat''] (\<lambda>P kw. T_Ridolfi2012 P (kw
         ''SiO2_Amp_13_cat'') (kw ''TiO2_Amp_13_cat'') (kw ''FeOt_Amp_13_cat'') (kw
         ''MgO_Amp_13_cat'') (kw ''CaO_Amp_13_cat'') (kw ''K2O_Amp_13_cat'') (kw
         ''Na2O_Amp_13_cat'') (kw ''Al2O3_Amp_13_cat''))),
(''T_Put2016_eq4a_amp_sat'', Optional_dep [''FeOt_Liq_mol_frac_hyd'',
         ''TiO2_Liq_mol_frac_hyd'', ''Al2O3_Liq_mol_frac_hyd'', ''MnO_Liq_mol_frac_hyd'',
         ''MgO_Liq_mol_frac_hyd'', ''Na2O_Amp_cat_23ox'', ''Na2O_Liq_mol_frac_hyd'']
         (\<lambda>P kw. T_Put2016_eq4a_amp_sat P (kw ''FeOt_Liq_mol_frac_hyd'') (kw
         ''TiO2_Liq_mol_frac_hyd'') (kw ''Al2O3_Liq_mol_frac_hyd'') (kw
         ''MnO_Liq_mol_frac_hyd'') (kw ''MgO_Liq_mol_frac_hyd'') (kw ''Na2O_Amp_cat_23ox'')
         (kw ''Na2O_Liq_mol_frac_hyd'')))
    ]"

text \<open>
  Series arithmetic aligns its operands on their index: with the default index the
  result has the length of the longer operand, and is NaN where an operand has no entry.
\<close>

definition pad :: "nat \<Rightarrow> 'a \<Rightarrow> 'a list \<Rightarrow> 'a list" where
  "pad n x xs = xs @ replicate (n - length xs) x"

definition align :: "'a \<Rightarrow> 'b \<Rightarrow> 'a list \<Rightarrow> 'b list \<Rightarrow> ('a \<times> 'b) list" where
  "align x y xs ys =
     (let n = max (length xs) (length ys) in zip (pad n x xs) (pad n y ys))"

text \<open>
  The call \<open>func(x, **kwargs)\<close> (and \<open>func(**kwargs)\<close>, where \<open>x\<close> is the default \<open>None\<close>),
  the keyword arguments being columns of one table, given by its rows. A function that
  computes with \<open>x\<close> broadcasts a number over the rows, aligns a Series with them, and
  raises \<open>TypeError\<close> on \<open>None\<close> or a string.
\<close>

fun call_func :: "func \<Rightarrow> pyarg \<Rightarrow> sample list \<Rightarrow> error + fl list" where
  "call_func (Optional_dep names f) x kwargs = Inr (map (f x) kwargs)"
| "call_func (Required_dep names f) (PyNum v) kwargs = Inr (map (f v) kwargs)"
| "call_func (Required_dep names f) (PySeries vs) kwargs =
     Inr (map (\<lambda>(v, kw). f v kw) (align NaN (\<lambda>name. NaN) vs kwargs))"
| "call_func (Required_dep names f) PyNone kwargs = Inl TypeError"
| "call_func (Required_dep names f) (PyStr s) kwargs = Inl TypeError"

text \<open>
  \<open>{name: table[name] for name in names}\<close>: a missing column raises \<open>KeyError\<close>, the first
  one in the order of the names.
\<close>

definition kwargs_of :: "string list \<Rightarrow> frame \<Rightarrow> error + sample list" where
  "kwargs_of names table =
     (case filter (\<lambda>name. name \<notin> set (columns table)) names of
        [] \<Rightarrow> Inr (rows table)
      | name # rest \<Rightarrow> Inl (KeyError name))"

section \<open>Amphibole-only barometry: \<open>calculate_amp_only_press\<close>\<close>

text \<open>
  The functions of \<open>Thermobar.core\<close> that the dispatch calls are parameters of the model:
  they turn the table of oxide weight percentages into the tables of cations, and may
  raise. Their result has one row for each row of their argument, in the same order.
\<close>

record externals =
  calculate_13cations_amphibole_ridolfi :: "frame \<Rightarrow> error + frame"
  calculate_23oxygens_amphibole :: "frame \<Rightarrow> error + frame"
  get_amp_sites_mutch :: "frame \<Rightarrow> error + frame"
  amp_components_ferric_ferrous_mutch :: "frame \<Rightarrow> frame \<Rightarrow> error + frame"
  get_amp_sites_ferric_ferrous_mutch :: "frame \<Rightarrow> error + frame"

text \<open>What a dispatch function returns: a Series, a \<open>functools.partial\<close>, or a table.\<close>

datatype pyval =
    Series "fl list"
  | Partial "pyarg \<Rightarrow> error + fl list"
  | DataFrame frame
  | Calcs_R "Calcs_R_row list"

text \<open>
  The test on the signature: an equation without default for the dependent variable
  needs a value, an equation with the default \<open>None\<close> prints a message when it gets one.
  \<open>dep\<close> is the letter of the variable in the message, \<open>T\<close> or \<open>P\<close>.
\<close>

definition check_signature ::
  "string \<Rightarrow> func \<Rightarrow> string \<Rightarrow> pyarg \<Rightarrow> diagnostic list \<times> (error + unit)" where
  "check_signature dep func equation_name x =
     (if default_is_not_None func then
        (if x = PyNone then ([], Inl (MissingDependentVariable equation_name)) else ([], Inr ()))
      else
        (if x \<noteq> PyNone then ([Printed (''Youve selected a '' @ dep @ ''-independent function'')], Inr ())
         else ([], Inr ())))"

text \<open>
  \<open>if isinstance(T, pd.Series): if amp_comps is not None: if len(T) != len(amp_comps): raise\<close>
\<close>

definition check_length :: "pyarg \<Rightarrow> frame option \<Rightarrow> error + unit" where
  "check_length x amp_comps =
     (case x of
        PySeries vs \<Rightarrow>
          (case amp_comps of
             Some table \<Rightarrow> if length vs \<noteq> length (rows table) then Inl LengthMismatch else Inr ()
           | None \<Rightarrow> Inr ())
      | _ \<Rightarrow> Inr ())"

text \<open>
  The last statements of both dispatch functions: the string \<open>"Solve"\<close> gives the partial
  application, \<open>None\<close> the call without the dependent variable, any other string leaves
  the result unassigned (\<open>result\<close> is the name of the local variable: \<open>P_kbar\<close> or
  \<open>T_K\<close>), and any other value is passed to the equation.
\<close>

definition evaluate :: "string \<Rightarrow> func \<Rightarrow> pyarg \<Rightarrow> sample list \<Rightarrow> error + pyval" where
  "evaluate result func x kwargs =
     (case x of
        PyStr s \<Rightarrow>
          if s = ''Solve'' then Inr (Partial (\<lambda>y. call_func func y kwargs))
          else Inl (UnboundLocalError result)
      | PyNone \<Rightarrow> map_sum id Series (call_func func PyNone kwargs)
      | _ \<Rightarrow> map_sum id Series (call_func func x kwargs))"

text \<open>Lines 276 to 293: the lookup in the registry and the two tests.\<close>

definition press_checks ::
  "frame option \<Rightarrow> string \<Rightarrow> pyarg \<Rightarrow> diagnostic list \<times> (error + func option)" where
  "press_checks amp_comps equationP T =
     (if equationP \<noteq> ''P_Ridolfi2021'' \<and> equationP \<noteq> ''P_Mutch2016'' then
        (case Amp_only_P_funcs_by_name equationP of
           None \<Rightarrow> ([], Inl (UnknownEquation equationP))
         | Some func \<Rightarrow>
            (case check_signature ''T'' func equationP T of
               (out, Inl e) \<Rightarrow> (out, Inl e)
             | (out, Inr u) \<Rightarrow>
                (case check_length T amp_comps of
                   Inl e \<Rightarrow> (out, Inl e)
                 | Inr u \<Rightarrow> (out, Inr (Some func)))))
      else ([], Inr None))"

text \<open>
  The branch of \<open>P_Kraw2012\<close>, after its warning. \<open>deltaNNO\<close> is a number, broadcast, or a
  Series, aligned with the column \<open>Mgno_Amp\<close>.
\<close>

definition Kraw_warning :: string where
  "Kraw_warning = ''This barometer gives the PH2O for the first appearance of amphibole. It should only be applied to the highest Mg# in each sample suite. Note, if there is CO2 in the system P=/ PH2O''"

definition Mgno_Amp_of :: "sample \<Rightarrow> fl" where
  "Mgno_Amp_of amp =
     100 * (amp ''MgO_Amp'' / 40.3044) / ((amp ''MgO_Amp'' / 40.3044) + (amp ''FeOt_Amp'' / 71.844))"

definition Kraw_row :: "fl \<Rightarrow> fl \<Rightarrow> sample" where
  "Kraw_row P_kbar Mgno_Amp =
     (\<lambda>name. if name = ''PH2O_kbar_calc'' then P_kbar
              else if name = ''Mg#_Amp'' then Mgno_Amp else NaN)"

definition Kraw_branch :: "frame option \<Rightarrow> pyarg \<Rightarrow> error + pyval" where
  "Kraw_branch amp_comps deltaNNO =
     (if deltaNNO = PyNone then Inl MissingDeltaNNO
      else case amp_comps of
        None \<Rightarrow> Inl TypeError
      | Some table \<Rightarrow>
         (case kwargs_of [''MgO_Amp'', ''FeOt_Amp''] table of
            Inl e \<Rightarrow> Inl e
          | Inr amps \<Rightarrow>
             (let Mgno_Amp = map Mgno_Amp_of amps in
              case deltaNNO of
                PyNum d \<Rightarrow>
                  Inr (DataFrame \<lparr>columns = [''PH2O_kbar_calc'', ''Mg#_Amp''],
                    rows = map (\<lambda>m. Kraw_row (P_Kraw2012 PyNone m d) m) Mgno_Amp\<rparr>)
              | PySeries ds \<Rightarrow>
                  Inr (DataFrame \<lparr>columns = [''PH2O_kbar_calc'', ''Mg#_Amp''],
                    rows = map (\<lambda>(m, d). Kraw_row (P_Kraw2012 PyNone m d) m)
                             (align NaN NaN Mgno_Amp ds)\<rparr>)
              | _ \<Rightarrow> Inl TypeError)))"

text \<open>
  \<open>if "Sample_ID_Amp" not in amp_comps: amp_comps['Sample_ID_Amp'] = amp_comps.index\<close>.
  The assignment also changes the table of the caller, which the model does not show.
\<close>

definition add_Sample_ID :: "frame \<Rightarrow> frame" where
  "add_Sample_ID table =
     (if ''Sample_ID_Amp'' \<in> set (columns table) then table
      else \<lparr>columns = columns table @ [''Sample_ID_Amp''],
            rows = map (\<lambda>(i, r). r(''Sample_ID_Amp'' := Fin (real i))) (enumerate 0 (rows table))\<rparr>)"

text \<open>\<open>table[name] = ...\<close> and \<open>table.insert(0, name, ...)\<close>, the new column given row by row.\<close>

definition assign_column :: "string \<Rightarrow> (sample \<Rightarrow> fl) \<Rightarrow> frame \<Rightarrow> frame" where
  "assign_column name v table =
     \<lparr>columns = (if name \<in> set (columns table) then columns table else columns table @ [name]),
      rows = map (\<lambda>r. r(name := v r)) (rows table)\<rparr>"

definition insert_first_column :: "string \<Rightarrow> (sample \<Rightarrow> fl) \<Rightarrow> frame \<Rightarrow> error + frame" where
  "insert_first_column name v table =
     (if name \<in> set (columns table) then Inl (AlreadyExists name)
      else Inr \<lparr>columns = name # columns table, rows = map (\<lambda>r. r(name := v r)) (rows table)\<rparr>)"

text \<open>The branch of \<open>P_Mutch2016\<close>.\<close>

definition Mutch_branch :: "externals \<Rightarrow> frame \<Rightarrow> error + pyval" where
  "Mutch_branch ext amp_comps =
     and_then (calculate_23oxygens_amphibole ext amp_comps)
       (\<lambda>ox23. and_then (get_amp_sites_mutch ext ox23)
       (\<lambda>Amp_sites_initial. and_then (amp_components_ferric_ferrous_mutch ext Amp_sites_initial ox23)
       (\<lambda>norm_cat. and_then (get_amp_sites_ferric_ferrous_mutch ext norm_cat)
       (\<lambda>final_cat. and_then (kwargs_of [''Al_T'', ''Al_C''] final_cat)
       (\<lambda>u. and_then
               (insert_first_column ''P_kbar_calc''
                  (\<lambda>r. 0.5 + 0.331 * r ''Al_tot'' + 0.995 * (r ''Al_tot'') ^ 2)
                  (assign_column ''Al_tot'' (\<lambda>r. r ''Al_T'' + r ''Al_C'') final_cat))
       (\<lambda>final_cat. Inr (DataFrame final_cat)))))))"

text \<open>
  \<open>Sum_input\<close>: the sum of the row over all columns but \<open>Sample_ID_Amp\<close>; pandas skips
  NaN entries.
\<close>

definition skipna :: "fl \<Rightarrow> fl" where
  "skipna x = (if x = NaN then 0 else x)"

definition row_sum :: "string list \<Rightarrow> sample \<Rightarrow> fl" where
  "row_sum names r = foldl (\<lambda>s name. s + skipna (r name)) 0 names"

text \<open>
  The branch of the equations of Ridolfi and Renzulli (2012) and of \<open>P_Ridolfi2021\<close>. The
  five pressures are computed for every identifier; the selection runs for
  \<open>P_Ridolfi2021\<close> only, and it alone assigns \<open>P_MPa\<close> and \<open>name\<close>, which the next
  statement \<open>Calcs_R['P_kbar_calc'] = P_MPa / 100\<close> reads. The function returns \<open>Calcs_R\<close>
  before it comes to the statements that would return the pressure of a single
  equation. The rows of \<open>cat13\<close>, of \<open>amp_comps\<close> and of \<open>Sum_input\<close> are paired by
  position.
\<close>

definition Ridolfi_branch :: "externals \<Rightarrow> frame \<Rightarrow> string \<Rightarrow> error + pyval" where
  "Ridolfi_branch ext amp_comps equationP =
     (case calculate_13cations_amphibole_ridolfi ext amp_comps of
        Inl e \<Rightarrow> Inl e
      | Inr cat13 \<Rightarrow>
         (let Sum_input = map (row_sum (filter (\<lambda>name. name \<noteq> ''Sample_ID_Amp'') (columns amp_comps)))
                             (rows amp_comps) in
          case kwargs_of [''SiO2_Amp_13_cat'', ''TiO2_Amp_13_cat'', ''FeOt_Amp_13_cat'',
                 ''MgO_Amp_13_cat'', ''CaO_Amp_13_cat'', ''K2O_Amp_13_cat'', ''Na2O_Amp_13_cat'',
                 ''Al2O3_Amp_13_cat''] cat13 of
            Inl e \<Rightarrow> Inl e
          | Inr u \<Rightarrow>
             if equationP = ''P_Ridolfi2021'' then
               (case kwargs_of [''F_Amp_13_cat'', ''Cl_Amp_13_cat'', ''cation_sum_Si_Mg'',
                      ''Cr2O3_Amp_13_cat'', ''MnO_Amp_13_cat''] cat13 of
                  Inl e \<Rightarrow> Inl e
                | Inr u \<Rightarrow>
                   (case kwargs_of [''F_Amp'', ''Cl_Amp'', ''FeOt_Amp''] amp_comps of
                      Inl e \<Rightarrow> Inl e
                    | Inr u \<Rightarrow>
                       Inr (Calcs_R (map (\<lambda>((c, a), s). Ridolfi2021_row c a s)
                                        (zip (zip (rows cat13) (rows amp_comps)) Sum_input)))))
             else Inl (UnboundLocalError ''P_MPa'')))"

text \<open>\<open>'Ridolfi2012' in equationP\<close>\<close>

definition contains :: "string \<Rightarrow> string \<Rightarrow> bool" where
  "contains sub s = list_ex (prefix sub) (suffixes s)"

text \<open>
  The statements after the three branches, for every other equation: the table of
  cations on the basis of 23 oxygens, the keyword arguments, the evaluation.
\<close>

definition generic_branch ::
  "externals \<Rightarrow> frame \<Rightarrow> string \<Rightarrow> func option \<Rightarrow> pyarg \<Rightarrow> error + pyval" where
  "generic_branch ext amp_comps equationP func T =
     (if equationP \<noteq> ''Mutch2016'' \<and> \<not> contains ''Ridolfi2012'' equationP
         \<and> equationP \<noteq> ''P_Ridolfi2021'' then
        (case calculate_23oxygens_amphibole ext amp_comps of
           Inl e \<Rightarrow> Inl e
         | Inr ox23_amp \<Rightarrow>
            (case func of
               None \<Rightarrow> Inl (UnboundLocalError ''sig'')
             | Some f \<Rightarrow>
                (case kwargs_of (kwonly f) ox23_amp of
                   Inl e \<Rightarrow> Inl e
                 | Inr kwargs \<Rightarrow> evaluate ''P_kbar'' f T kwargs)))
      else (case func of
              None \<Rightarrow> Inl (UnboundLocalError ''sig'')
            | Some f \<Rightarrow> Inl (UnboundLocalError ''ox23_amp'')))"

text \<open>
  The function. It returns what it printed and warned, and its result or the exception
  it raised. A table that is \<open>None\<close> passes the tests of the first lines and fails where
  it is first read.
\<close>

definition calculate_amp_only_press ::
  "externals \<Rightarrow> frame option \<Rightarrow> string \<Rightarrow> pyarg \<Rightarrow> pyarg \<Rightarrow> diagnostic list \<times> (error + pyval)" where
  "calculate_amp_only_press ext amp_comps equationP T deltaNNO =
     (case press_checks amp_comps equationP T of
        (out, Inl e) \<Rightarrow> (out, Inl e)
      | (out, Inr func) \<Rightarrow>
         if equationP = ''P_Kraw2012'' then (out @ [Warned Kraw_warning], Kraw_branch amp_comps deltaNNO)
         else (case amp_comps of
            None \<Rightarrow> (out, Inl TypeError)
          | Some table \<Rightarrow>
             (let table = add_Sample_ID table in
              if equationP = ''P_Mutch2016'' then (out, Mutch_branch ext table)
              else if contains ''Ridolfi2012'' equationP \<or> equationP = ''P_Ridolfi2021''
                then (out, Ridolfi_branch ext table equationP)
              else (out, generic_branch ext table equationP func T))))"


section \<open>Amphibole-only thermometry: \<open>calculate_amp_only_temp\<close>\<close>

definition temp_kwargs :: "externals \<Rightarrow> frame option \<Rightarrow> string \<Rightarrow> func \<Rightarrow> pyarg \<Rightarrow> error + sample list" where
  "temp_kwargs ext amp_comps equationT func P =
     (case amp_comps of
        None \<Rightarrow> (if equationT = ''T_Ridolfi2012'' \<and> P = PyNone then Inl PDependentNoP else Inl TypeError)
      | Some table \<Rightarrow>
         if equationT = ''T_Ridolfi2012'' then
           (if P = PyNone then Inl PDependentNoP
            else case calculate_13cations_amphibole_ridolfi ext table of
               Inl e \<Rightarrow> Inl e
             | Inr cat13 \<Rightarrow>
                if ''Sample_ID_Amp'' \<notin> set (columns table) then Inl (KeyError ''Sample_ID_Amp'')
                else kwargs_of (kwonly func) cat13)
         else
           (case calculate_23oxygens_amphibole ext table of
              Inl e \<Rightarrow> Inl e
            | Inr ox23 \<Rightarrow> kwargs_of (kwonly func) ox23))"

definition calculate_amp_only_temp ::
  "externals \<Rightarrow> frame option \<Rightarrow> string \<Rightarrow> pyarg \<Rightarrow> diagnostic list \<times> (error + pyval)" where
  "calculate_amp_only_temp ext amp_comps equationT P =
     (case Amp_only_T_funcs_by_name equationT of
        None \<Rightarrow> ([], Inl (UnknownEquation equationT))
      | Some func \<Rightarrow>
         (case check_signature ''P'' func equationT P of
            (out, Inl e) \<Rightarrow> (out, Inl e)
          | (out, Inr u) \<Rightarrow>
             (case check_length P amp_comps of
                Inl e \<Rightarrow> (out, Inl e)
              | Inr u \<Rightarrow>
                 (case temp_kwargs ext amp_comps equationT func P of
                    Inl e \<Rightarrow> (out, Inl e)
                  | Inr kwargs \<Rightarrow> (out, evaluate ''T_K'' func P kwargs)))))"


section \<open>The coupled solve: \<open>calculate_amp_only_press_temp\<close>\<close>

text \<open>
  The state of the function after the two dispatch calls: the local variables \<open>P_guess\<close>
  (unassigned at first) and \<open>T_K_guess\<close>, and, to count them, the calls made to the two
  partial applications, the latest first.
\<close>

datatype call = P_func_call pyarg | T_func_call pyarg

record solver_state =
  P_guess :: "pyarg option"
  T_K_guess :: pyarg
  calls :: "call list"

text \<open>\<open>isinstance(v, pd.Series)\<close> and \<open>isinstance(v, partial)\<close>\<close>

fun is_Series :: "pyval \<Rightarrow> bool" where
  "is_Series (Series vs) = True"
| "is_Series v = False"

fun is_partial :: "pyval \<Rightarrow> bool" where
  "is_partial (Partial f) = True"
| "is_partial v = False"

text \<open>
  A value used as the argument of a call or stored in a variable, and a call of a value
  that is a partial application.
\<close>

fun as_arg :: "pyval \<Rightarrow> pyarg" where
  "as_arg (Series vs) = PySeries vs"
| "as_arg v = PyNone"

fun call_partial :: "pyval \<Rightarrow> pyarg \<Rightarrow> error + fl list" where
  "call_partial (Partial f) x = f x"
| "call_partial v x = Inl TypeError"

text \<open>
  One pass of the body of the loop: \<open>P_guess = P_func(T_K_guess)\<close>, then
  \<open>T_K_guess = T_func(P_guess)\<close>.
\<close>

definition loop_body :: "pyval \<Rightarrow> pyval \<Rightarrow> solver_state \<Rightarrow> error + solver_state" where
  "loop_body P_func T_func st =
     (case call_partial P_func (T_K_guess st) of
        Inl e \<Rightarrow> Inl e
      | Inr p \<Rightarrow>
         (case call_partial T_func (PySeries p) of
            Inl e \<Rightarrow> Inl e
          | Inr t \<Rightarrow>
             Inr \<lparr>P_guess = Some (PySeries p), T_K_guess = PySeries t,
                  calls = T_func_call (PySeries p) # P_func_call (T_K_guess st) # calls st\<rparr>))"

text \<open>\<open>for _ in range(iterations)\<close>, by the number of passes left.\<close>

fun loop :: "nat \<Rightarrow> pyval \<Rightarrow> pyval \<Rightarrow> solver_state \<Rightarrow> error + solver_state" where
  "loop 0 P_func T_func st = Inr st"
| "loop (Suc n) P_func T_func st =
     (case loop_body P_func T_func st of
        Inl e \<Rightarrow> Inl e
      | Inr st' \<Rightarrow> loop n P_func T_func st')"

text \<open>The four \<open>if\<close> statements on the kinds of \<open>T_func\<close> and \<open>P_func\<close>.\<close>

definition if_both_Series :: "pyval \<Rightarrow> pyval \<Rightarrow> solver_state \<Rightarrow> error + solver_state" where
  "if_both_Series P_func T_func st =
     (if is_Series T_func \<and> is_Series P_func
      then Inr (st\<lparr>P_guess := Some (as_arg P_func), T_K_guess := as_arg T_func\<rparr>)
      else Inr st)"

definition if_Series_T_partial_P :: "pyval \<Rightarrow> pyval \<Rightarrow> solver_state \<Rightarrow> error + solver_state" where
  "if_Series_T_partial_P P_func T_func st =
     (if is_Series T_func \<and> is_partial P_func
      then (case call_partial P_func (as_arg T_func) of
              Inl e \<Rightarrow> Inl e
            | Inr p \<Rightarrow> Inr (st\<lparr>P_guess := Some (PySeries p), T_K_guess := as_arg T_func,
                                calls := P_func_call (as_arg T_func) # calls st\<rparr>))
      else Inr st)"

definition if_Series_P_partial_T :: "pyval \<Rightarrow> pyval \<Rightarrow> solver_state \<Rightarrow> error + solver_state" where
  "if_Series_P_partial_T P_func T_func st =
     (if is_Series P_func \<and> is_partial T_func
      then (case call_partial T_func (as_arg P_func) of
              Inl e \<Rightarrow> Inl e
            | Inr t \<Rightarrow> Inr (st\<lparr>T_K_guess := PySeries t, P_guess := Some (as_arg P_func),
                                calls := T_func_call (as_arg P_func) # calls st\<rparr>))
      else Inr st)"

text \<open>\<open>range\<close> of a count that is not positive is empty.\<close>

definition if_both_partial ::
  "pyval \<Rightarrow> pyval \<Rightarrow> int \<Rightarrow> solver_state \<Rightarrow> error + solver_state" where
  "if_both_partial P_func T_func iterations st =
     (if is_partial P_func \<and> is_partial T_func
      then loop (nat iterations) P_func T_func st
      else Inr st)"

text \<open>The table of the result reads both variables.\<close>

definition PT_out :: "solver_state \<Rightarrow> error + solver_state" where
  "PT_out st = (case P_guess st of None \<Rightarrow> Inl (UnboundLocalError ''P_guess'') | Some p \<Rightarrow> Inr st)"

text \<open>The statements of the function after the two dispatch calls.\<close>

definition solve :: "pyval \<Rightarrow> pyval \<Rightarrow> int \<Rightarrow> pyarg \<Rightarrow> error + solver_state" where
  "solve P_func T_func iterations T_K_guess0 =
     and_then (if_both_Series P_func T_func \<lparr>P_guess = None, T_K_guess = T_K_guess0, calls = []\<rparr>)
       (\<lambda>st. and_then (if_Series_T_partial_P P_func T_func st)
       (\<lambda>st. and_then (if_Series_P_partial_T P_func T_func st)
       (\<lambda>st. and_then (if_both_partial P_func T_func iterations st) PT_out)))"

text \<open>The attribute \<open>.P_kbar_calc\<close> of the table returned by the barometer.\<close>

definition P_kbar_calc_of :: "pyval \<Rightarrow> error + pyval" where
  "P_kbar_calc_of v =
     (case v of
        Calcs_R rs \<Rightarrow> Inr (Series (map P_kbar_calc rs))
      | DataFrame table \<Rightarrow>
          (if ''P_kbar_calc'' \<in> set (columns table)
           then Inr (Series (map (\<lambda>r. r ''P_kbar_calc'') (rows table)))
           else Inl (AttributeError ''P_kbar_calc''))
      | _ \<Rightarrow> Inl (AttributeError ''P_kbar_calc''))"

text \<open>
  The function: both equations are dispatched with \<open>"Solve"\<close>, the thermometer first. Its
  result is the pair of columns \<open>P_kbar_calc\<close> and \<open>T_K_calc\<close> of the table \<open>PT_out\<close>.
\<close>

definition calculate_amp_only_press_temp ::
  "externals \<Rightarrow> frame option \<Rightarrow> string \<Rightarrow> string \<Rightarrow> int \<Rightarrow> pyarg
     \<Rightarrow> diagnostic list \<times> (error + pyarg \<times> pyarg)" where
  "calculate_amp_only_press_temp ext amp_comps equationT equationP iterations T_K_guess0 =
     (case calculate_amp_only_temp ext amp_comps equationT (PyStr ''Solve'') of
        (out1, Inl e) \<Rightarrow> (out1, Inl e)
      | (out1, Inr T_func) \<Rightarrow>
         (case calculate_amp_only_press ext amp_comps equationP (PyStr ''Solve'') PyNone of
            (out2, Inl e) \<Rightarrow> (out1 @ out2, Inl e)
          | (out2, Inr v) \<Rightarrow>
             (case (if equationP \<noteq> ''P_Ridolfi2021'' \<and> equationP \<noteq> ''P_Mutch2016''
                    then Inr v else P_kbar_calc_of v) of
                Inl e \<Rightarrow> (out1 @ out2, Inl e)
              | Inr P_func \<Rightarrow>
                 (case solve P_func T_func iterations T_K_guess0 of
                    Inl e \<Rightarrow> (out1 @ out2, Inl e)
                  | Inr st \<Rightarrow>
                     (case P_guess st of
                        None \<Rightarrow> (out1 @ out2, Inl (UnboundLocalError ''P_guess''))
                      | Some p \<Rightarrow> (out1 @ out2, Inr (p, T_K_guess st)))))))"

text \<open>The defaults of the two optional parameters: \<open>iterations=30, T_K_guess=1300\<close>.\<close>

definition iterations_default :: int where
  "iterations_default = 30"

definition T_K_guess_default :: pyarg where
  "T_K_guess_default = PyNum 1300"


section \<open>Notions of the specification\<close>

text \<open>
  A concrete dependent value: a number, broadcast to all samples, or a Series with one
  entry for each row of the table.
\<close>

definition concrete_value :: "pyarg \<Rightarrow> frame option \<Rightarrow> bool" where
  "concrete_value x amp_comps =
     (case x of
        PyNum v \<Rightarrow> True
      | PySeries vs \<Rightarrow> (case amp_comps of Some table \<Rightarrow> length vs = length (rows table) | None \<Rightarrow> True)
      | _ \<Rightarrow> False)"

text \<open>
  The fixed-point scheme in the words of the specification, for evaluators that do not
  raise: \<open>T\<close> starts as the guess; each round sets \<open>P\<close> to the pressure evaluator at \<open>T\<close>,
  then \<open>T\<close> to the temperature evaluator at \<open>P\<close>. \<open>T_after n\<close> is \<open>T\<close> after \<open>n\<close> rounds and
  \<open>P_after n\<close> is \<open>P\<close> after \<open>n + 1\<close> rounds.
\<close>

fun T_after :: "nat \<Rightarrow> (pyarg \<Rightarrow> fl list) \<Rightarrow> (pyarg \<Rightarrow> fl list) \<Rightarrow> pyarg \<Rightarrow> pyarg" where
  "T_after 0 P_deferred T_deferred T_initial_guess = T_initial_guess"
| "T_after (Suc n) P_deferred T_deferred T_initial_guess =
     PySeries (T_deferred (PySeries (P_deferred (T_after n P_deferred T_deferred T_initial_guess))))"

definition P_after :: "nat \<Rightarrow> (pyarg \<Rightarrow> fl list) \<Rightarrow> (pyarg \<Rightarrow> fl list) \<Rightarrow> pyarg \<Rightarrow> pyarg" where
  "P_after n P_deferred T_deferred T_initial_guess =
     PySeries (P_deferred (T_after n P_deferred T_deferred T_initial_guess))"


section \<open>Example data\<close>

text \<open>
  Concrete collaborators and tables, on which the theorems below are instantiated. The
  example collaborators keep the rows of their argument and declare the columns of the
  table they stand for.
\<close>

definition example_externals :: externals where
  "example_externals =
     \<lparr>calculate_13cations_amphibole_ridolfi =
        (\<lambda>table. Inr \<lparr>columns = [''SiO2_Amp_13_cat'', ''TiO2_Amp_13_cat'', ''Al2O3_Amp_13_cat'',
             ''Cr2O3_Amp_13_cat'', ''FeOt_Amp_13_cat'', ''MnO_Amp_13_cat'', ''MgO_Amp_13_cat'',
             ''CaO_Amp_13_cat'', ''Na2O_Amp_13_cat'', ''K2O_Amp_13_cat'', ''F_Amp_13_cat'',
             ''Cl_Amp_13_cat'', ''cation_sum_Si_Mg''], rows = rows table\<rparr>),
      calculate_23oxygens_amphibole =
        (\<lambda>table. Inr \<lparr>columns = [''SiO2_Amp_cat_23ox'', ''TiO2_Amp_cat_23ox'',
             ''Al2O3_Amp_cat_23ox'', ''FeOt_Amp_cat_23ox'', ''MgO_Amp_cat_23ox'',
             ''Na2O_Amp_cat_23ox'', ''cation_sum_Si_Ca''], rows = rows table\<rparr>),
      get_amp_sites_mutch = (\<lambda>table. Inr table),
      amp_components_ferric_ferrous_mutch = (\<lambda>sites table. Inr sites),
      get_amp_sites_ferric_ferrous_mutch = (\<lambda>table. Inr table)\<rparr>"

text \<open>
  One sample: 70 weight percent of silica and 10 of iron oxide (a total of 80, below 90),
  one calcium cation and two aluminium cations in the formula, every other entry zero.
\<close>

definition example_sample :: sample where
  "example_sample =
     (\<lambda>name. if name = ''SiO2_Amp'' then 70 else if name = ''FeOt_Amp'' then 10
              else if name = ''CaO_Amp_13_cat'' then 1
              else if name = ''Al2O3_Amp_cat_23ox'' then 2 else 0)"

definition example_table :: frame where
  "example_table =
     \<lparr>columns = [''SiO2_Amp'', ''FeOt_Amp'', ''F_Amp'', ''Cl_Amp''], rows = [example_sample]\<rparr>"

text \<open>Two evaluators that never raise, for the coupled solve.\<close>

definition example_P_func :: "pyarg \<Rightarrow> error + fl list" where
  "example_P_func x = (case x of PyNum t \<Rightarrow> Inr [t / 100] | PySeries ts \<Rightarrow> Inr (map (\<lambda>t. t / 100) ts)
                       | _ \<Rightarrow> Inl TypeError)"

definition example_T_func :: "pyarg \<Rightarrow> error + fl list" where
  "example_T_func x = (case x of PyNum p \<Rightarrow> Inr [1000 + p] | PySeries ps \<Rightarrow> Inr (map (\<lambda>p. 1000 + p) ps)
                       | _ \<Rightarrow> Inl TypeError)"


section \<open>Evaluating the arithmetic\<close>

lemma fl_power: "Fin x ^ n = Fin (x ^ n)"
  by (induction n) (simp_all add: one_fl_def times_fl_def)

lemma fl_numeral: "(numeral n :: fl) = Fin (numeral n)"
proof (induction n)
  case One
  show ?case by (simp add: one_fl_def)
next
  case (Bit0 n)
  have "(numeral (num.Bit0 n) :: fl) = Fin (numeral n) + Fin (numeral n)"
    by (simp only: numeral.simps Bit0.IH)
  also have "\<dots> = Fin (numeral (num.Bit0 n))"
    by (simp add: plus_fl_def numeral_Bit0)
  finally show ?case .
next
  case (Bit1 n)
  have "(numeral (num.Bit1 n) :: fl) = Fin (numeral n) + Fin (numeral n) + Fin 1"
    by (simp only: numeral.simps Bit1.IH one_fl_def)
  also have "\<dots> = Fin (numeral (num.Bit1 n))"
    by (simp add: plus_fl_def numeral_Bit1)
  finally show ?case .
qed

lemmas fl_arith = fl_numeral fl_power zero_fl_def one_fl_def plus_fl_def minus_fl_def
  uminus_fl_def times_fl_def divide_fl_def inverse_fl_def fsub_def fgt_def signed_inf_def


section \<open>Properties of the pressure selection\<close>



text \<open>
  C6. The label stored in \<open>name[i]\<close>. Rule 5 and rule 10 select the same mean of \<open>c\<close> and
  \<open>d\<close>, but rule 5 stores the label \<open>1c+1d\<close> where rule 10 stores \<open>(1c+1d)/2\<close>: the first
  sample below is decided by rule 5, the second by rule 10.
\<close>

theorem Ridolfi2021_label_rule5_rule10:
  "Ridolfi2021_select (Fin 1000) (Fin 400) (Fin 420) (Fin 500) (Fin 100) = (Fin 460, ''1c+1d'') \<and>
   Ridolfi2021_select (Fin 1000) (Fin 400) (Fin 420) (Fin 500) (Fin 900) = (Fin 460, ''(1c+1d)/2'')"
  by (simp add: Ridolfi2021_select_def XPae_def deltaPdb_def fl_arith)

text \<open>The labels the chain can store are these eight.\<close>

lemma Ridolfi2021_labels:
  "snd (Ridolfi2021_select a b c d e) \<in>
     {''1b'', ''(1b+1c)/2'', ''1c'', ''1c+1d'', ''1e'', ''1d'', ''(1c+1d)/2'', ''1a''}"
  unfolding Ridolfi2021_select_def by simp

section \<open>Properties of the input checks\<close>

text \<open>A run of checks ends at the last one that fails.\<close>

lemma run_checks_snoc:
  "run_checks before (checks @ [(failing, msg)]) = fail_if failing msg (run_checks before checks)"
  by (simp add: run_checks_def)

lemma run_checks_last_failing:
  "run_checks before checks =
     (if filter fst checks = [] then (True, '''') else (False, snd (last (filter fst checks))))"
proof (induction checks rule: rev_induct)
  case Nil
  show ?case by (simp add: run_checks_def)
next
  case (snoc c checks)
  obtain failing msg where c: "c = (failing, msg)" by (cases c)
  show ?case
    unfolding c run_checks_snoc snoc.IH by (simp add: fail_if_def)
qed

lemma Ridolfi2021_row_Input_Check:
  "(Input_Check (Ridolfi2021_row cat13 amp S), Fail_Msg (Ridolfi2021_row cat13 amp S)) =
     run_checks None (input_checks (Sum_input (Ridolfi2021_row cat13 amp S))
        (Total_recalc (Ridolfi2021_row cat13 amp S)) (Charge (Ridolfi2021_row cat13 amp S))
        (Fe2_calc (Ridolfi2021_row cat13 amp S)) (Mgno_Fe2 (Ridolfi2021_row cat13 amp S))
        (cat13 ''CaO_Amp_13_cat'') (B_Sum (Ridolfi2021_row cat13 amp S)))"
  unfolding Ridolfi2021_row_def Let_def
  by (simp add: split_beta run_checks_def)

lemma Ridolfi2021_row_Sum_input: "Sum_input (Ridolfi2021_row cat13 amp S) = S"
  unfolding Ridolfi2021_row_def Let_def by (simp add: split_beta)

lemma Ridolfi2021_row_failed:
  "\<not> Input_Check (Ridolfi2021_row cat13 amp S) \<Longrightarrow> P_kbar_calc (Ridolfi2021_row cat13 amp S) = NaN"
  unfolding Ridolfi2021_row_def Let_def by (simp add: split_beta)

lemma Ridolfi2021_row_low_sum:
  "flt S 90 \<Longrightarrow> \<not> Input_Check (Ridolfi2021_row cat13 amp S)"
  using Ridolfi2021_row_Input_Check [of cat13 amp S]
  unfolding run_checks_last_failing Ridolfi2021_row_Sum_input
  by (simp add: input_checks_def)

text \<open>Every row that the \<open>P_Ridolfi2021\<close> path returns is computed by \<open>Ridolfi2021_row\<close>.\<close>

lemma Ridolfi2021_output_rows:
  assumes "snd (calculate_amp_only_press ext amp_comps ''P_Ridolfi2021'' T deltaNNO) = Inr (Calcs_R rs)"
    and "r \<in> set rs"
  shows "\<exists>cat13 amp S. r = Ridolfi2021_row cat13 amp S"
  using assms
  unfolding calculate_amp_only_press_def press_checks_def Ridolfi_branch_def Let_def
  by (auto split: option.splits sum.splits if_splits) blast

lemma example_Ridolfi2021:
  "calculate_amp_only_press example_externals (Some example_table) ''P_Ridolfi2021'' T deltaNNO =
     ([], Inr (Calcs_R [Ridolfi2021_row (example_sample(''Sample_ID_Amp'' := 0))
                          (example_sample(''Sample_ID_Amp'' := 0)) 80]))"
  unfolding calculate_amp_only_press_def press_checks_def Ridolfi_branch_def Let_def
  by (simp add: example_externals_def example_table_def add_Sample_ID_def kwargs_of_def
      contains_def row_sum_def skipna_def example_sample_def fl_arith)

text \<open>
  C4. In the table returned for \<open>P_Ridolfi2021\<close>, every sample whose total of oxides
  (\<open>Sum_input\<close>) is below 90, or whose \<open>Input_Check\<close> is false, has the pressure
  \<open>P_kbar_calc\<close> NaN, whatever rule selected its pressure and whatever check failed.
\<close>

theorem Ridolfi2021_failed_sample_is_NaN:
  assumes "snd (calculate_amp_only_press ext amp_comps ''P_Ridolfi2021'' T deltaNNO) = Inr (Calcs_R rs)"
    and "r \<in> set rs"
    and "flt (Sum_input r) 90 \<or> \<not> Input_Check r"
  shows "P_kbar_calc r = NaN"
proof -
  obtain cat13 amp S where r: "r = Ridolfi2021_row cat13 amp S"
    using Ridolfi2021_output_rows [OF assms(1,2)] by blast
  have "\<not> Input_Check r"
    using assms(3) Ridolfi2021_row_low_sum [of S cat13 amp]
    unfolding r Ridolfi2021_row_Sum_input by blast
  then show ?thesis
    unfolding r by (rule Ridolfi2021_row_failed)
qed

text \<open>The example sample has a total of 80.\<close>

theorem Ridolfi2021_failed_sample_is_NaN_witness:
  "\<exists>r. snd (calculate_amp_only_press example_externals (Some example_table) ''P_Ridolfi2021''
            PyNone PyNone) = Inr (Calcs_R [r])
       \<and> flt (Sum_input r) 90 \<and> P_kbar_calc r = NaN"
proof -
  let ?r = "Ridolfi2021_row (example_sample(''Sample_ID_Amp'' := 0))
              (example_sample(''Sample_ID_Amp'' := 0)) 80"
  have run: "snd (calculate_amp_only_press example_externals (Some example_table) ''P_Ridolfi2021''
            PyNone PyNone) = Inr (Calcs_R [?r])"
    by (simp add: example_Ridolfi2021)
  have low: "flt (Sum_input ?r) 90"
    by (simp add: Ridolfi2021_row_Sum_input fl_arith)
  have "P_kbar_calc ?r = NaN"
    using Ridolfi2021_failed_sample_is_NaN [OF run, of ?r] low by simp
  with run low show ?thesis by blast
qed

text \<open>
  C5. The checks run in the order: original total below 90; recalculated total below
  98.5, then above 102; charge above 46.5; ferrous iron below zero; magnesium number below
  54; calcium below 1.5, then above 2.05; sodium and calcium on the B site below 1.99.
  In the table returned for \<open>P_Ridolfi2021\<close>, \<open>Input_Check\<close> of a sample is true exactly
  when none of them fails, and \<open>Fail Msg\<close> is the message of the last check of this
  sequence that fails (the empty string when none does).
\<close>

theorem Ridolfi2021_reason_is_last_failing_check:
  assumes "snd (calculate_amp_only_press ext amp_comps ''P_Ridolfi2021'' T deltaNNO) = Inr (Calcs_R rs)"
    and "r \<in> set rs"
  shows "let failing = filter fst
           [(flt (Sum_input r) 90, ''Cation oxide Total<90''),
            (flt (Total_recalc r) 98.5, ''Recalc Total<98.5''),
            (fgt (Total_recalc r) 102, ''Recalc Total>102''),
            (fgt (Charge r) 46.5, ''unbalanced charge (>46.5)''),
            (flt (Fe2_calc r) 0, ''unbalanced charge (Fe2<0)''),
            (flt (100 * Mgno_Fe2 r) 54, ''Low Mg# (<54)''),
            (flt (cat13_columns r ''CaO_Amp_13_cat'') 1.5, ''Low Ca (<1.5)''),
            (fgt (cat13_columns r ''CaO_Amp_13_cat'') 2.05, ''High Ca (>2.05)''),
            (flt (B_Sum r) 1.99, ''Low B Cations'')]
         in Input_Check r = (failing = []) \<and>
            Fail_Msg r = (if failing = [] then '''' else snd (last failing))"
proof -
  obtain cat13 amp S where r: "r = Ridolfi2021_row cat13 amp S"
    using Ridolfi2021_output_rows [OF assms] by blast
  have c: "cat13_columns r = cat13"
    unfolding r Ridolfi2021_row_def Let_def by (simp add: split_beta)
  have "(Input_Check r, Fail_Msg r) =
     run_checks None (input_checks (Sum_input r) (Total_recalc r) (Charge r) (Fe2_calc r)
       (Mgno_Fe2 r) (cat13_columns r ''CaO_Amp_13_cat'') (B_Sum r))"
    unfolding c unfolding r by (rule Ridolfi2021_row_Input_Check)
  then show ?thesis
    unfolding run_checks_last_failing input_checks_def Let_def
    by (simp split: if_splits)
qed

lemma example_row_checks:
  "Sum_input (Ridolfi2021_row (example_sample(''Sample_ID_Amp'' := 0))
              (example_sample(''Sample_ID_Amp'' := 0)) 80) = 80"
  "cat13_columns (Ridolfi2021_row (example_sample(''Sample_ID_Amp'' := 0))
              (example_sample(''Sample_ID_Amp'' := 0)) 80) ''CaO_Amp_13_cat'' = 1"
  "B_Sum (Ridolfi2021_row (example_sample(''Sample_ID_Amp'' := 0))
              (example_sample(''Sample_ID_Amp'' := 0)) 80) = 1"
  unfolding Ridolfi2021_row_def Let_def
  by (simp_all add: split_beta example_sample_def fl_arith)

text \<open>
  The example sample fails the first check (total below 90) and the last (B site): its
  message is the one of the last.
\<close>

theorem Ridolfi2021_reason_is_last_failing_check_witness:
  "\<exists>r. snd (calculate_amp_only_press example_externals (Some example_table) ''P_Ridolfi2021''
            PyNone PyNone) = Inr (Calcs_R [r])
       \<and> flt (Sum_input r) 90 \<and> flt (B_Sum r) 1.99
       \<and> Input_Check r = False \<and> Fail_Msg r = ''Low B Cations''"
proof -
  let ?r = "Ridolfi2021_row (example_sample(''Sample_ID_Amp'' := 0))
              (example_sample(''Sample_ID_Amp'' := 0)) 80"
  have run: "snd (calculate_amp_only_press example_externals (Some example_table) ''P_Ridolfi2021''
            PyNone PyNone) = Inr (Calcs_R [?r])"
    by (simp add: example_Ridolfi2021)
  have low: "flt (Sum_input ?r) 90" "flt (B_Sum ?r) 1.99"
    unfolding example_row_checks by (simp_all add: fl_arith)
  have "Input_Check ?r = False \<and> Fail_Msg ?r = ''Low B Cations''"
    using Ridolfi2021_reason_is_last_failing_check [OF run, of ?r] low
    by (simp add: Let_def)
  with run low show ?thesis by blast
qed

section \<open>Properties of the dispatch\<close>

lemma contains_Ridolfi2012:
  "contains ''Ridolfi2012'' ''P_Ridolfi2012_1a''"
  "contains ''Ridolfi2012'' ''P_Ridolfi2012_1b''"
  "contains ''Ridolfi2012'' ''P_Ridolfi2012_1c''"
  "contains ''Ridolfi2012'' ''P_Ridolfi2012_1d''"
  "contains ''Ridolfi2012'' ''P_Ridolfi2012_1e''"
  by (simp_all add: contains_def)

lemma Ridolfi2012_registered:
  assumes "equationP \<in> {''P_Ridolfi2012_1a'', ''P_Ridolfi2012_1b'', ''P_Ridolfi2012_1c'',
             ''P_Ridolfi2012_1d'', ''P_Ridolfi2012_1e''}"
  shows "\<exists>names f. Amp_only_P_funcs_by_name equationP = Some (Optional_dep names f)"
  using assms unfolding Amp_only_P_funcs_by_name_def by auto

lemma press_checks_Optional_dep:
  assumes "equationP \<noteq> ''P_Ridolfi2021''" "equationP \<noteq> ''P_Mutch2016''"
    and "Amp_only_P_funcs_by_name equationP = Some (Optional_dep names f)"
  shows "press_checks amp_comps equationP T =
     (if T \<noteq> PyNone then [Printed ''Youve selected a T-independent function''] else [],
      case check_length T amp_comps of Inl e \<Rightarrow> Inl e | Inr u \<Rightarrow> Inr (Some (Optional_dep names f)))"
  using assms unfolding press_checks_def check_signature_def
  by (simp split: sum.splits)

lemma Ridolfi_branch_2012:
  assumes "equationP \<noteq> ''P_Ridolfi2021''"
  shows "Ridolfi_branch ext table equationP =
     (case calculate_13cations_amphibole_ridolfi ext table of
        Inl e \<Rightarrow> Inl e
      | Inr cat13 \<Rightarrow>
         (case kwargs_of [''SiO2_Amp_13_cat'', ''TiO2_Amp_13_cat'', ''FeOt_Amp_13_cat'',
                 ''MgO_Amp_13_cat'', ''CaO_Amp_13_cat'', ''K2O_Amp_13_cat'', ''Na2O_Amp_13_cat'',
                 ''Al2O3_Amp_13_cat''] cat13 of
            Inl e \<Rightarrow> Inl e
          | Inr u \<Rightarrow> Inl (UnboundLocalError ''P_MPa'')))"
  using assms unfolding Ridolfi_branch_def Let_def by (simp split: sum.splits)

lemma kwargs_of_present:
  "set names \<subseteq> set (columns table) \<Longrightarrow> kwargs_of names table = Inr (rows table)"
  unfolding kwargs_of_def by (simp add: filter_empty_conv subset_iff)

lemma Ridolfi2012_press:
  assumes "equationP \<in> {''P_Ridolfi2012_1a'', ''P_Ridolfi2012_1b'', ''P_Ridolfi2012_1c'',
             ''P_Ridolfi2012_1d'', ''P_Ridolfi2012_1e''}"
  shows "snd (calculate_amp_only_press ext amp_comps equationP T deltaNNO) =
     (case check_length T amp_comps of
        Inl e \<Rightarrow> Inl e
      | Inr u \<Rightarrow>
        (case amp_comps of
           None \<Rightarrow> Inl TypeError
         | Some table \<Rightarrow> Ridolfi_branch ext (add_Sample_ID table) equationP))"
proof -
  obtain names f where reg: "Amp_only_P_funcs_by_name equationP = Some (Optional_dep names f)"
    using Ridolfi2012_registered [OF assms] by blast
  have ne: "equationP \<noteq> ''P_Ridolfi2021''" "equationP \<noteq> ''P_Mutch2016''"
    "equationP \<noteq> ''P_Kraw2012''"
    using assms by auto
  have c: "contains ''Ridolfi2012'' equationP"
    using assms contains_Ridolfi2012 by auto
  show ?thesis
    unfolding calculate_amp_only_press_def press_checks_Optional_dep [OF ne(1,2) reg]
    using ne c by (simp add: Let_def split: sum.splits option.splits)
qed

text \<open>
  C10. With any of the five identifiers \<open>P_Ridolfi2012_1a\<close> to \<open>P_Ridolfi2012_1e\<close> the
  barometer raises, for every table and every other argument: when the tests of its first
  lines pass and the table of 13 cations has the columns of the equations, it raises
  \<open>UnboundLocalError\<close> for \<open>P_MPa\<close>, which only the \<open>P_Ridolfi2021\<close> branch assigns. It
  never returns a value, so the statements that would return the pressure of one equation
  are never reached.
\<close>

theorem Ridolfi2012_identifiers_always_fail:
  assumes "equationP \<in> {''P_Ridolfi2012_1a'', ''P_Ridolfi2012_1b'', ''P_Ridolfi2012_1c'',
             ''P_Ridolfi2012_1d'', ''P_Ridolfi2012_1e''}"
  shows "(\<exists>e. snd (calculate_amp_only_press ext amp_comps equationP T deltaNNO) = Inl e) \<and>
    (\<forall>table cat13.
       amp_comps = Some table \<and> check_length T amp_comps = Inr () \<and>
       calculate_13cations_amphibole_ridolfi ext (add_Sample_ID table) = Inr cat13 \<and>
       set [''SiO2_Amp_13_cat'', ''TiO2_Amp_13_cat'', ''FeOt_Amp_13_cat'', ''MgO_Amp_13_cat'',
            ''CaO_Amp_13_cat'', ''K2O_Amp_13_cat'', ''Na2O_Amp_13_cat'', ''Al2O3_Amp_13_cat'']
         \<subseteq> set (columns cat13)
       \<longrightarrow> snd (calculate_amp_only_press ext amp_comps equationP T deltaNNO)
             = Inl (UnboundLocalError ''P_MPa''))"
proof -
  have ne: "equationP \<noteq> ''P_Ridolfi2021''" using assms by auto
  show ?thesis
    unfolding Ridolfi2012_press [OF assms] Ridolfi_branch_2012 [OF ne]
    by (auto split: sum.splits option.splits simp: kwargs_of_present simp del: set_simps)
qed

text \<open>On the example table, without and with a temperature.\<close>

theorem Ridolfi2012_identifiers_always_fail_witness:
  "calculate_amp_only_press example_externals (Some example_table) ''P_Ridolfi2012_1a'' PyNone PyNone
     = ([], Inl (UnboundLocalError ''P_MPa''))
   \<and> snd (calculate_amp_only_press example_externals (Some example_table) ''P_Ridolfi2012_1e''
            (PyNum 1000) PyNone) = Inl (UnboundLocalError ''P_MPa'')"
proof -
  have a: "check_length PyNone (Some example_table) = Inr ()"
    "check_length (PyNum 1000) (Some example_table) = Inr ()"
    by (simp_all add: check_length_def)
  have b: "calculate_13cations_amphibole_ridolfi example_externals (add_Sample_ID example_table)
     = Inr \<lparr>columns = [''SiO2_Amp_13_cat'', ''TiO2_Amp_13_cat'', ''Al2O3_Amp_13_cat'',
             ''Cr2O3_Amp_13_cat'', ''FeOt_Amp_13_cat'', ''MnO_Amp_13_cat'', ''MgO_Amp_13_cat'',
             ''CaO_Amp_13_cat'', ''Na2O_Amp_13_cat'', ''K2O_Amp_13_cat'', ''F_Amp_13_cat'',
             ''Cl_Amp_13_cat'', ''cation_sum_Si_Mg''], rows = rows (add_Sample_ID example_table)\<rparr>"
    by (simp add: example_externals_def)
  have f: "fst (calculate_amp_only_press example_externals (Some example_table) ''P_Ridolfi2012_1a''
     PyNone PyNone) = []"
    unfolding calculate_amp_only_press_def press_checks_def Amp_only_P_funcs_by_name_def
    by (simp add: check_signature_def check_length_def contains_def Let_def)
  have "snd (calculate_amp_only_press example_externals (Some example_table) ''P_Ridolfi2012_1a''
     PyNone PyNone) = Inl (UnboundLocalError ''P_MPa'')"
    using Ridolfi2012_identifiers_always_fail [of "''P_Ridolfi2012_1a''" example_externals
      "Some example_table" PyNone PyNone] a b by simp
  moreover have "snd (calculate_amp_only_press example_externals (Some example_table)
     ''P_Ridolfi2012_1e'' (PyNum 1000) PyNone) = Inl (UnboundLocalError ''P_MPa'')"
    using Ridolfi2012_identifiers_always_fail [of "''P_Ridolfi2012_1e''" example_externals
      "Some example_table" "PyNum 1000" PyNone] a b by simp
  ultimately show ?thesis using f by (simp add: prod_eq_iff)
qed

subsection \<open>The registries\<close>



lemma T_registered:
  assumes "Amp_only_T_funcs_by_name equationT = Some func"
  shows "equationT \<in> {''T_Put2016_eq5'', ''T_Put2016_eq6'', ''T_Put2016_SiHbl'', ''T_Put2016_eq8'',
     ''T_Ridolfi2012'', ''T_Put2016_eq4a_amp_sat''}"
  using assms unfolding Amp_only_T_funcs_by_name_def
  by (simp split: if_splits)



subsection \<open>The dispatch, branch by branch\<close>










lemma P_unregistered:
  "Amp_only_P_funcs_by_name ''P_Ridolfi2021'' = None"
  "Amp_only_P_funcs_by_name ''P_Mutch2016'' = None"
  unfolding Amp_only_P_funcs_by_name_def by simp_all








subsection \<open>The dispatch on the example table\<close>

lemma example_registry:
  "Amp_only_P_funcs_by_name ''P_Anderson1995'' =
     Some (Required_dep [''Al2O3_Amp_cat_23ox'']
             (\<lambda>T kw. P_Anderson1995 T (kw ''Al2O3_Amp_cat_23ox'')))"
  "Amp_only_P_funcs_by_name ''P_Hollister1987'' =
     Some (Optional_dep [''Al2O3_Amp_cat_23ox'']
             (\<lambda>T kw. P_Hollister1987 T (kw ''Al2O3_Amp_cat_23ox'')))"
  "Amp_only_T_funcs_by_name ''T_Put2016_eq6'' =
     Some (Required_dep [''SiO2_Amp_cat_23ox'', ''TiO2_Amp_cat_23ox'', ''FeOt_Amp_cat_23ox'',
             ''Na2O_Amp_cat_23ox'']
             (\<lambda>P kw. T_Put2016_eq6 P (kw ''SiO2_Amp_cat_23ox'') (kw ''TiO2_Amp_cat_23ox'')
                (kw ''FeOt_Amp_cat_23ox'') (kw ''Na2O_Amp_cat_23ox'')))"
  "Amp_only_T_funcs_by_name ''T_Put2016_SiHbl'' =
     Some (Optional_dep [''SiO2_Amp_cat_23ox''] (\<lambda>P kw. T_Put2016_SiHbl P (kw ''SiO2_Amp_cat_23ox'')))"
  unfolding Amp_only_P_funcs_by_name_def Amp_only_T_funcs_by_name_def by simp_all

lemma example_concrete:
  "concrete_value (PyNum v) (Some example_table)"
  "check_length (PySeries [1000, 1100]) (Some example_table) = Inl LengthMismatch"
  "length [1000, 1100 :: fl] \<noteq> length (rows example_table)"
  unfolding concrete_value_def check_length_def example_table_def by simp_all









subsection \<open>Deferred evaluation\<close>



subsection \<open>Equations without dependent variable\<close>





subsection \<open>The test of the length\<close>

text \<open>
  C9, as the code has it. For a registered identifier (which excludes \<open>P_Ridolfi2021\<close> and
  \<open>P_Mutch2016\<close>) and a table, a dependent variable given as a Series of another length
  than the table makes the dispatch raise the length mismatch, whatever the collaborators
  would do: no equation is evaluated.
\<close>

lemma press_wrong_length:
  assumes reg: "Amp_only_P_funcs_by_name equationP = Some func"
    and len: "length vs \<noteq> length (rows table)"
  shows "snd (calculate_amp_only_press ext (Some table) equationP (PySeries vs) deltaNNO)
           = Inl LengthMismatch"
proof -
  have ne: "equationP \<noteq> ''P_Ridolfi2021''" "equationP \<noteq> ''P_Mutch2016''"
    using reg P_unregistered by auto
  show ?thesis
    unfolding calculate_amp_only_press_def press_checks_def check_length_def check_signature_def
    using ne reg len by simp
qed

lemma temp_wrong_length:
  assumes reg: "Amp_only_T_funcs_by_name equationT = Some func"
    and len: "length vs \<noteq> length (rows table)"
  shows "snd (calculate_amp_only_temp ext (Some table) equationT (PySeries vs)) = Inl LengthMismatch"
  unfolding calculate_amp_only_temp_def check_length_def check_signature_def
  using reg len by simp

theorem wrong_length_fails_for_registered_equations:
  assumes "length vs \<noteq> length (rows table)"
  shows
   "((\<exists>func. Amp_only_P_funcs_by_name equationP = Some func) \<longrightarrow>
       snd (calculate_amp_only_press ext (Some table) equationP (PySeries vs) deltaNNO)
         = Inl LengthMismatch) \<and>
    ((\<exists>func. Amp_only_T_funcs_by_name equationT = Some func) \<longrightarrow>
       snd (calculate_amp_only_temp ext (Some table) equationT (PySeries vs)) = Inl LengthMismatch)"
  using press_wrong_length [OF _ assms] temp_wrong_length [OF _ assms]
  by blast

text \<open>On the example table (one row), with a Series of two values.\<close>

theorem wrong_length_fails_for_registered_equations_witness:
  "length [1000, 1100 :: fl] \<noteq> length (rows example_table) \<and>
   snd (calculate_amp_only_press example_externals (Some example_table) ''P_Anderson1995''
          (PySeries [1000, 1100]) PyNone) = Inl LengthMismatch \<and>
   snd (calculate_amp_only_temp example_externals (Some example_table) ''T_Put2016_eq6''
          (PySeries [1000, 1100])) = Inl LengthMismatch"
  using wrong_length_fails_for_registered_equations [OF example_concrete(3),
      of "''P_Anderson1995''" example_externals PyNone "''T_Put2016_eq6''"]
    example_concrete(3)
  unfolding example_registry by simp

text \<open>
  C9, as stated, fails: for \<open>P_Ridolfi2021\<close> the length is not tested, and the dispatch
  returns its table.
\<close>

theorem Ridolfi2021_accepts_wrong_length:
  "length [1000, 1100 :: fl] \<noteq> length (rows example_table) \<and>
   (\<exists>rs. snd (calculate_amp_only_press example_externals (Some example_table) ''P_Ridolfi2021''
                (PySeries [1000, 1100]) PyNone) = Inr (Calcs_R rs))"
  using example_concrete(3) by (simp add: example_Ridolfi2021)

end
